theory Spec2Isabelle
  imports Complex_Main "HOL-Library.AList"
begin

section \<open>Common data\<close>

text \<open>
  The repository holds three routers: the basic \<^verbatim>\<open>EdgeRouter\<close> of \<^verbatim>\<open>index.js\<close>, the
  multi-provider \<^verbatim>\<open>EdgeRouter\<close> of \<^verbatim>\<open>unnamed/part_001\<close> and the \<^verbatim>\<open>GPTRouter\<close> of
  \<^verbatim>\<open>src/index.ts\<close>. Each is embedded below under the names of its source; where two
  sources use one name, the \<^verbatim>\<open>index.js\<close> one carries the suffix \<open>_basic\<close> and the
  \<^verbatim>\<open>index.ts\<close> one the prefix \<open>gpt_\<close>.

  JavaScript numbers are modelled as exact reals (token counts as naturals), strings as
  lists of code units below 256, objects and \<^verbatim>\<open>Map\<close>s as association lists in insertion
  order, exceptions as the left summand of a result.
\<close>

text \<open>
  The \<^verbatim>\<open>content\<close> of a message: a string, or missing (\<^verbatim>\<open>undefined\<close>), or \<^verbatim>\<open>null\<close>.
\<close>

datatype content = Undefined | Null | Str string

record message =
  role :: string
  content :: content

datatype error =
    InvalidRequest
  | UnknownStrategy string
  | UnknownProvider string
  | NoAvailableProviders
  | NotImplemented
  | TypeError

datatype privacy = Cloud | Local

datatype health = Healthy | Unhealthy

datatype strategy = Cheapest | Fastest | Balanced | PrivacyFirst | Reliability | Other string

fun strategy_name :: "strategy \<Rightarrow> string" where
  "strategy_name Cheapest = ''cheapest''"
| "strategy_name Fastest = ''fastest''"
| "strategy_name Balanced = ''balanced''"
| "strategy_name PrivacyFirst = ''privacy-first''"
| "strategy_name Reliability = ''reliability''"
| "strategy_name (Other s) = s"

text \<open>
  The \<^verbatim>\<open>routing\<close> object of a response: \<^verbatim>\<open>{provider, reason, cost, latency}\<close>. The
  mock completion around it (id, choices, usage) plays no part in routing and is left out.
\<close>

record routing =
  r_provider :: string
  r_reason :: string
  r_cost :: real
  r_latency :: real

text \<open>
  The \<^verbatim>\<open>messages\<close> of a request: missing (\<^verbatim>\<open>undefined\<close> or \<^verbatim>\<open>null\<close>), or a value that is not
  an array (a string, a number, an object), or an array of messages.
\<close>

datatype messages_value = Missing | NotArray | Array "message list"

record ChatRequest =
  messages :: messages_value

text \<open>
  \<^verbatim>\<open>Array.prototype.sort\<close> with a comparator \<^verbatim>\<open>(a, b) => number\<close>: a stable sort, \<open>a\<close>
  before \<open>b\<close> when the comparator is negative. Modelled as stable insertion sort.
\<close>

fun insert_by :: "('a \<Rightarrow> 'a \<Rightarrow> real) \<Rightarrow> 'a \<Rightarrow> 'a list \<Rightarrow> 'a list" where
  "insert_by cmp x [] = [x]"
| "insert_by cmp x (y # ys) = (if cmp x y \<le> 0 then x # y # ys else y # insert_by cmp x ys)"

definition js_sort :: "('a \<Rightarrow> 'a \<Rightarrow> real) \<Rightarrow> 'a list \<Rightarrow> 'a list" where
  "js_sort cmp xs = foldr (insert_by cmp) xs []"

text \<open>\<^verbatim>\<open>xs[0]\<close>: \<^verbatim>\<open>undefined\<close> on the empty array.\<close>

fun first :: "'a list \<Rightarrow> 'a option" where
  "first [] = None"
| "first (x # xs) = Some x"

text \<open>\<^verbatim>\<open>Math.ceil(n / 4)\<close> on a length \<open>n\<close>.\<close>

definition ceil_div4 :: "nat \<Rightarrow> nat" where
  "ceil_div4 n = nat \<lceil>real n / 4\<rceil>"

section \<open>Regular expressions of the sensitivity detectors\<close>

text \<open>
  The patterns of the three detectors use literals, character classes, \<^verbatim>\<open>?\<close>, \<^verbatim>\<open>*\<close>, \<^verbatim>\<open>+\<close>
  on single characters, \<^verbatim>\<open>\b\<close>, alternation at top level and the flag \<^verbatim>\<open>i\<close>. None has the
  flag \<^verbatim>\<open>g\<close>, so \<^verbatim>\<open>test\<close> keeps no state: it answers whether the pattern matches
  somewhere in the string.
\<close>

datatype atom =
    Lit char
  | Range char char
  | Digit
  | Space
  | NonSpace
  | Dot
  | OneOf "atom list"

datatype item = One atom | Opt atom | Star atom | Plus atom | WordB

record regex =
  alts :: "item list list"
  ignoreCase :: bool

definition in_range :: "char \<Rightarrow> char \<Rightarrow> char \<Rightarrow> bool" where
  "in_range lo hi c = ((of_char lo :: nat) \<le> of_char c \<and> (of_char c :: nat) \<le> of_char hi)"

definition code_in_range :: "char \<Rightarrow> char \<Rightarrow> nat \<Rightarrow> bool" where
  "code_in_range lo hi n = (of_char lo \<le> n \<and> n \<le> of_char hi)"

text \<open>
  The code unit of the upper-case (lower-case) form of a character; only the ASCII letters
  have one that differs. Under the flag \<^verbatim>\<open>i\<close> two characters match when their upper-case
  forms agree.
\<close>

definition to_upper :: "char \<Rightarrow> nat" where
  "to_upper c = (if in_range CHR ''a'' CHR ''z'' c then of_char c - 32 else of_char c)"

definition to_lower :: "char \<Rightarrow> nat" where
  "to_lower c = (if in_range CHR ''A'' CHR ''Z'' c then of_char c + 32 else of_char c)"

definition is_digit :: "char \<Rightarrow> bool" where
  "is_digit c = in_range CHR ''0'' CHR ''9'' c"

definition is_space :: "char \<Rightarrow> bool" where
  "is_space c = (c \<in> set [CHR '' '', CHR 0x09, CHR 0x0A, CHR 0x0B, CHR 0x0C, CHR 0x0D, CHR 0xA0])"

definition is_line_end :: "char \<Rightarrow> bool" where
  "is_line_end c = (c \<in> set [CHR 0x0A, CHR 0x0D])"

definition is_word :: "char \<Rightarrow> bool" where
  "is_word c =
     (in_range CHR ''a'' CHR ''z'' c \<or> in_range CHR ''A'' CHR ''Z'' c \<or> is_digit c \<or> c = CHR ''_'')"

fun atom_ok :: "bool \<Rightarrow> atom \<Rightarrow> char \<Rightarrow> bool" where
  "atom_ok ci (Lit c) d = (if ci then to_upper c = to_upper d else c = d)"
| "atom_ok ci (Range lo hi) d =
     (in_range lo hi d \<or>
      (ci \<and> (code_in_range lo hi (to_upper d) \<or> code_in_range lo hi (to_lower d))))"
| "atom_ok ci Digit d = is_digit d"
| "atom_ok ci Space d = is_space d"
| "atom_ok ci NonSpace d = (\<not> is_space d)"
| "atom_ok ci Dot d = (\<not> is_line_end d)"
| "atom_ok ci (OneOf as) d = list_ex (\<lambda>a. atom_ok ci a d) as"

definition word_at :: "char option \<Rightarrow> bool" where
  "word_at c = (case c of None \<Rightarrow> False | Some d \<Rightarrow> is_word d)"

definition next_char :: "string \<Rightarrow> char option" where
  "next_char s = (case s of [] \<Rightarrow> None | c # _ \<Rightarrow> Some c)"

text \<open>
  \<open>match_here ci p prev s\<close>: the items \<open>p\<close> match a prefix of \<open>s\<close>, the character before
  \<open>s\<close> being \<open>prev\<close> (for \<^verbatim>\<open>\b\<close>).
\<close>

fun match_here :: "bool \<Rightarrow> item list \<Rightarrow> char option \<Rightarrow> string \<Rightarrow> bool" where
  "match_here ci [] prev s = True"
| "match_here ci (One a # p) prev [] = False"
| "match_here ci (One a # p) prev (c # s) =
     (if atom_ok ci a c then match_here ci p (Some c) s else False)"
| "match_here ci (Opt a # p) prev [] = match_here ci p prev []"
| "match_here ci (Opt a # p) prev (c # s) =
     (if (if atom_ok ci a c then match_here ci p (Some c) s else False) then True
      else match_here ci p prev (c # s))"
| "match_here ci (Star a # p) prev [] = match_here ci p prev []"
| "match_here ci (Star a # p) prev (c # s) =
     (if (if atom_ok ci a c then match_here ci (Star a # p) (Some c) s else False) then True
      else match_here ci p prev (c # s))"
| "match_here ci (Plus a # p) prev [] = False"
| "match_here ci (Plus a # p) prev (c # s) =
     (if atom_ok ci a c then match_here ci (Star a # p) (Some c) s else False)"
| "match_here ci (WordB # p) prev s =
     (if word_at prev \<noteq> word_at (next_char s) then match_here ci p prev s else False)"

text \<open>The pattern matches at some position of the string.\<close>

fun match_from :: "bool \<Rightarrow> item list \<Rightarrow> char option \<Rightarrow> string \<Rightarrow> bool" where
  "match_from ci p prev [] = match_here ci p prev []"
| "match_from ci p prev (c # s) =
     (if match_here ci p prev (c # s) then True else match_from ci p (Some c) s)"

definition test :: "regex \<Rightarrow> string \<Rightarrow> bool" where
  "test r s = list_ex (\<lambda>p. match_from (ignoreCase r) p None s) (alts r)"

definition lits :: "string \<Rightarrow> item list" where
  "lits s = map (\<lambda>c. One (Lit c)) s"

definition digits :: "nat \<Rightarrow> item list" where
  "digits n = replicate n (One Digit)"

definition rx :: "item list \<Rightarrow> regex" where
  "rx p = \<lparr>alts = [p], ignoreCase = False\<rparr>"

definition rxi :: "item list \<Rightarrow> regex" where
  "rxi p = \<lparr>alts = [p], ignoreCase = True\<rparr>"

definition rxi_alts :: "item list list \<Rightarrow> regex" where
  "rxi_alts ps = \<lparr>alts = ps, ignoreCase = True\<rparr>"

text \<open>
  Patterns shared by the detectors: \<^verbatim>\<open>/api[_-]?key/i\<close>, \<^verbatim>\<open>/bearer\s+/i\<close>,
  \<^verbatim>\<open>/\b\d{3}-\d{2}-\d{4}\b/\<close> and \<^verbatim>\<open>/\b\d{4}[\s-]?\d{4}[\s-]?\d{4}[\s-]?\d{4}\b/\<close>
  (\<open>sep\<close> is its \<^verbatim>\<open>[\s-]?\<close>).
\<close>

definition rx_api_key :: regex where
  "rx_api_key = rxi (lits ''api'' @ [Opt (OneOf [Lit CHR ''_'', Lit CHR ''-''])] @ lits ''key'')"

definition rx_bearer :: regex where
  "rx_bearer = rxi (lits ''bearer'' @ [Plus Space])"

definition rx_ssn :: regex where
  "rx_ssn = rx ([WordB] @ digits 3 @ lits ''-'' @ digits 2 @ lits ''-'' @ digits 4 @ [WordB])"

definition sep :: item where
  "sep = Opt (OneOf [Space, Lit CHR ''-''])"

definition rx_card :: regex where
  "rx_card = rx ([WordB] @ digits 4 @ [sep] @ digits 4 @ [sep] @ digits 4 @ [sep] @ digits 4 @ [WordB])"

section \<open>The basic router (index.js)\<close>

text \<open>
  The patterns of \<^verbatim>\<open>containsSensitive\<close>, in the order of the source: \<^verbatim>\<open>/api[_-]?key/i\<close>,
  \<^verbatim>\<open>/sk_live_/\<close>, \<^verbatim>\<open>/pk_live_/\<close>, \<^verbatim>\<open>/bearer\s+/i\<close>, \<^verbatim>\<open>/password/i\<close>, \<^verbatim>\<open>/secret/i\<close>,
  \<^verbatim>\<open>/token/i\<close>, the social security number, \<^verbatim>\<open>/private/i\<close>, \<^verbatim>\<open>/confidential/i\<close>.
\<close>

definition patterns_basic :: "regex list" where
  "patterns_basic =
     [rx_api_key, rx (lits ''sk_live_''), rx (lits ''pk_live_''), rx_bearer,
      rxi (lits ''password''), rxi (lits ''secret''), rxi (lits ''token''), rx_ssn,
      rxi (lits ''private''), rxi (lits ''confidential'')]"

text \<open>\<^verbatim>\<open>String(msg.content || '')\<close>: a missing, null or empty content is the empty string.\<close>

fun content_or_empty :: "content \<Rightarrow> string" where
  "content_or_empty Undefined = []"
| "content_or_empty Null = []"
| "content_or_empty (Str s) = s"

definition containsSensitive_basic :: "message list \<Rightarrow> bool" where
  "containsSensitive_basic msgs =
     list_ex (\<lambda>msg. list_ex (\<lambda>pattern. test pattern (content_or_empty (content msg)))
                patterns_basic) msgs"

record routing_basic =
  b_provider :: string
  b_reason :: string

record BasicRouter =
  preferLocal :: bool

definition routeToLocal :: "ChatRequest \<Rightarrow> error + routing_basic" where
  "routeToLocal request = Inr \<lparr>b_provider = ''local'', b_reason = ''sensitive_content''\<rparr>"

definition mockCloudflareResponse :: "ChatRequest \<Rightarrow> error + routing_basic" where
  "mockCloudflareResponse request = Inr \<lparr>b_provider = ''cloudflare'', b_reason = ''cost_optimized''\<rparr>"

text \<open>With or without credentials \<^verbatim>\<open>routeToCloudflare\<close> answers with the mock.\<close>

definition routeToCloudflare :: "ChatRequest \<Rightarrow> error + routing_basic" where
  "routeToCloudflare request = mockCloudflareResponse request"

definition routeToOpenAI :: "ChatRequest \<Rightarrow> error + routing_basic" where
  "routeToOpenAI request = Inl NotImplemented"

text \<open>
  \<^verbatim>\<open>route\<close>. The guard \<^verbatim>\<open>!messages || !Array.isArray(messages)\<close> throws for a missing value and
  for a value that is not an array.
\<close>

definition route_basic :: "BasicRouter \<Rightarrow> ChatRequest \<Rightarrow> error + routing_basic" where
  "route_basic st request =
     (case messages request of
        Missing \<Rightarrow> Inl InvalidRequest
      | NotArray \<Rightarrow> Inl InvalidRequest
      | Array ms \<Rightarrow>
          (let hasSensitive = containsSensitive_basic ms;
               pname = (if hasSensitive \<or> preferLocal st then ''local'' else ''cloudflare'')
           in if pname = ''local'' then routeToLocal request
              else if pname = ''cloudflare'' then routeToCloudflare request
              else if pname = ''openai'' then routeToOpenAI request
              else Inl (UnknownProvider pname)))"

section \<open>The multi-provider router (unnamed/part_001)\<close>

text \<open>
  The patterns of \<^verbatim>\<open>containsSensitive\<close>, in the order of the source: \<^verbatim>\<open>/api[_-]?key/i\<close>,
  \<^verbatim>\<open>/sk_live_/\<close>, \<^verbatim>\<open>/pk_live_/\<close>, \<^verbatim>\<open>/sk_test_/\<close>, \<^verbatim>\<open>/bearer\s+/i\<close>, \<^verbatim>\<open>/password/i\<close>,
  \<^verbatim>\<open>/secret/i\<close>, \<^verbatim>\<open>/token/i\<close>, the social security number, the credit card number,
  \<^verbatim>\<open>/private/i\<close>, \<^verbatim>\<open>/confidential/i\<close>, \<^verbatim>\<open>/medical/i\<close>, \<^verbatim>\<open>/health\s+record/i\<close>, \<^verbatim>\<open>/patient/i\<close>.
\<close>

definition patterns :: "regex list" where
  "patterns =
     [rx_api_key, rx (lits ''sk_live_''), rx (lits ''pk_live_''), rx (lits ''sk_test_''),
      rx_bearer, rxi (lits ''password''), rxi (lits ''secret''), rxi (lits ''token''),
      rx_ssn, rx_card, rxi (lits ''private''), rxi (lits ''confidential''),
      rxi (lits ''medical''), rxi (lits ''health'' @ [Plus Space] @ lits ''record''),
      rxi (lits ''patient'')]"

definition containsSensitive :: "message list \<Rightarrow> bool" where
  "containsSensitive msgs =
     list_ex (\<lambda>msg. list_ex (\<lambda>pattern. test pattern (content_or_empty (content msg)))
                patterns) msgs"

text \<open>
  A provider entry of \<^verbatim>\<open>this.providers\<close> (the endpoint string plays no part in routing and
  is left out).
\<close>

record ProviderConfig =
  cost :: real
  latency :: real
  reliability :: real
  privacy :: privacy
  status :: health

record alert =
  alert_type :: string
  alert_provider :: string
  timestamp :: int

text \<open>
  The router object: \<^verbatim>\<open>providers\<close>, \<^verbatim>\<open>strategy\<close>, \<^verbatim>\<open>healthCheck.{failureThreshold, failures,
  lastCheck}\<close>, \<^verbatim>\<open>budgetManager.{daily, monthly, spent, alerts}\<close> and
  \<^verbatim>\<open>analytics.{requests, costs, startTime}\<close>. Credentials, the debug flag, the timer
  settings and the analytics maps that are never written are left out.
\<close>

record EdgeRouter =
  providers :: "(string \<times> ProviderConfig) list"
  strategy :: strategy
  failureThreshold :: nat
  failures :: "(string \<times> nat) list"
  lastCheck :: "(string \<times> int) list"
  daily :: real
  monthly :: real
  spent :: "(string \<times> real) list"
  alerts :: "alert list"
  requests :: "(string \<times> nat) list"
  costs :: "(string \<times> real) list"
  startTime :: int

text \<open>A user's \<^verbatim>\<open>Partial<ProviderConfig>\<close> and the configuration object.\<close>

record ProviderOverride =
  o_cost :: "real option"
  o_latency :: "real option"
  o_reliability :: "real option"
  o_privacy :: "privacy option"
  o_status :: "health option"

record EdgeRouterConfig =
  cfg_providers :: "(string \<times> ProviderOverride) list"
  cfg_strategy :: "strategy option"
  cfg_dailyBudget :: "real option"
  cfg_monthlyBudget :: "real option"

definition default_providers :: "(string \<times> ProviderConfig) list" where
  "default_providers =
     [(''cloudflare'', \<lparr>cost = 0.001, latency = 50, reliability = 0.99, privacy = Cloud, status = Healthy\<rparr>),
      (''openai'', \<lparr>cost = 0.015, latency = 200, reliability = 0.995, privacy = Cloud, status = Healthy\<rparr>),
      (''anthropic'', \<lparr>cost = 0.012, latency = 180, reliability = 0.99, privacy = Cloud, status = Healthy\<rparr>),
      (''local'', \<lparr>cost = 0, latency = 100, reliability = 1.0, privacy = Local, status = Healthy\<rparr>),
      (''groq'', \<lparr>cost = 0.0001, latency = 30, reliability = 0.95, privacy = Cloud, status = Healthy\<rparr>),
      (''together'', \<lparr>cost = 0.002, latency = 60, reliability = 0.97, privacy = Cloud, status = Healthy\<rparr>)]"

text \<open>\<^verbatim>\<open>Object.assign(this.providers[name], config.providers[name])\<close>.\<close>

definition assign :: "ProviderOverride \<Rightarrow> ProviderConfig \<Rightarrow> ProviderConfig" where
  "assign ov p =
     \<lparr>cost = (case o_cost ov of None \<Rightarrow> cost p | Some v \<Rightarrow> v),
      latency = (case o_latency ov of None \<Rightarrow> latency p | Some v \<Rightarrow> v),
      reliability = (case o_reliability ov of None \<Rightarrow> reliability p | Some v \<Rightarrow> v),
      privacy = (case o_privacy ov of None \<Rightarrow> privacy p | Some v \<Rightarrow> v),
      status = (case o_status ov of None \<Rightarrow> status p | Some v \<Rightarrow> v)\<rparr>"

fun merge_providers ::
  "(string \<times> ProviderOverride) list \<Rightarrow> (string \<times> ProviderConfig) list \<Rightarrow> (string \<times> ProviderConfig) list"
where
  "merge_providers [] ps = ps"
| "merge_providers ((pname, ov) # rest) ps = merge_providers rest (AList.map_entry pname (assign ov) ps)"

text \<open>\<^verbatim>\<open>x || d\<close> on an optional number: the default for a missing value and for 0.\<close>

definition or_default :: "real option \<Rightarrow> real \<Rightarrow> real" where
  "or_default x d = (case x of None \<Rightarrow> d | Some v \<Rightarrow> if v = 0 then d else v)"

definition initializeSpentTracking :: "(string \<times> ProviderConfig) list \<Rightarrow> (string \<times> real) list" where
  "initializeSpentTracking ps = map (\<lambda>entry. (fst entry, 0)) ps"

text \<open>
  The constructor, at clock reading \<open>now\<close>. \<^verbatim>\<open>config.strategy || 'balanced'\<close>: the default
  for a missing strategy and for the empty name.
\<close>

definition new_EdgeRouter :: "EdgeRouterConfig \<Rightarrow> int \<Rightarrow> EdgeRouter" where
  "new_EdgeRouter config now =
     \<lparr>providers = merge_providers (cfg_providers config) default_providers,
      strategy = (case cfg_strategy config of
                    None \<Rightarrow> Balanced
                  | Some s \<Rightarrow> if strategy_name s = [] then Balanced else s),
      failureThreshold = 3,
      failures = [],
      lastCheck = [],
      daily = or_default (cfg_dailyBudget config) 10,
      monthly = or_default (cfg_monthlyBudget config) 200,
      spent = initializeSpentTracking (merge_providers (cfg_providers config) default_providers),
      alerts = [],
      requests = [],
      costs = [],
      startTime = now\<rparr>"

fun join :: "string \<Rightarrow> string list \<Rightarrow> string" where
  "join s [] = []"
| "join s [x] = x"
| "join s (x # y # ys) = x @ s @ join s (y # ys)"

text \<open>
  \<^verbatim>\<open>messages.map(m => m.content).join(' ')\<close>: \<^verbatim>\<open>join\<close> writes a missing or null element as
  the empty string.
\<close>

definition estimateTokens :: "message list \<Rightarrow> nat" where
  "estimateTokens ms = ceil_div4 (length (join '' '' (map (\<lambda>m. content_or_empty (content m)) ms)))"

text \<open>
  \<^verbatim>\<open>this.providers[name]\<close> for a name taken from \<^verbatim>\<open>Object.keys(this.providers)\<close>, where the
  entry exists.
\<close>

definition entry :: "EdgeRouter \<Rightarrow> string \<Rightarrow> ProviderConfig" where
  "entry st pname = the (map_of (providers st) pname)"

definition getHealthyProviders :: "EdgeRouter \<Rightarrow> string list" where
  "getHealthyProviders st =
     filter (\<lambda>pname. status (entry st pname) = Healthy) (map fst (providers st))"

definition routeToCheapest :: "EdgeRouter \<Rightarrow> string option" where
  "routeToCheapest st =
     first (js_sort (\<lambda>a b. cost (entry st a) - cost (entry st b)) (getHealthyProviders st))"

definition routeToFastest :: "EdgeRouter \<Rightarrow> string option" where
  "routeToFastest st =
     first (js_sort (\<lambda>a b. latency (entry st a) - latency (entry st b)) (getHealthyProviders st))"

definition routeBalanced :: "EdgeRouter \<Rightarrow> string option" where
  "routeBalanced st =
     first (js_sort (\<lambda>a b. (cost (entry st a) * 100 + latency (entry st a))
                            - (cost (entry st b) * 100 + latency (entry st b)))
              (getHealthyProviders st))"

definition routePrivacyFirst :: "EdgeRouter \<Rightarrow> string option" where
  "routePrivacyFirst st =
     (let localNames = filter (\<lambda>p. privacy (entry st p) = Local) (getHealthyProviders st)
      in if length localNames > 0 then first localNames else routeToCheapest st)"

definition routeReliability :: "EdgeRouter \<Rightarrow> string option" where
  "routeReliability st =
     first (js_sort (\<lambda>a b. reliability (entry st b) - reliability (entry st a))
              (getHealthyProviders st))"

text \<open>\<^verbatim>\<open>this.strategies[this.strategy]\<close>: \<^verbatim>\<open>undefined\<close> for a name outside the five.\<close>

fun strategies :: "strategy \<Rightarrow> (EdgeRouter \<Rightarrow> string option) option" where
  "strategies Cheapest = Some routeToCheapest"
| "strategies Fastest = Some routeToFastest"
| "strategies Balanced = Some routeBalanced"
| "strategies PrivacyFirst = Some routePrivacyFirst"
| "strategies Reliability = Some routeReliability"
| "strategies (Other s) = None"

text \<open>\<^verbatim>\<open>map.get(k) || 0\<close> and \<^verbatim>\<open>obj[k] || 0\<close>.\<close>

definition get_or_zero :: "(string \<times> 'a::zero) list \<Rightarrow> string \<Rightarrow> 'a" where
  "get_or_zero m k = (case map_of m k of None \<Rightarrow> 0 | Some v \<Rightarrow> v)"

text \<open>
  \<^verbatim>\<open>checkBudget\<close> answers whether the cost fits and, when it does not, pushes an alert:
  the answer and the router after the call.
\<close>

definition checkBudget :: "EdgeRouter \<Rightarrow> int \<Rightarrow> string \<Rightarrow> real \<Rightarrow> bool \<times> EdgeRouter" where
  "checkBudget st now pname c =
     (let dailySpent = get_or_zero (spent st) pname
      in if dailySpent + c > daily st
         then (False, st\<lparr>alerts := alerts st @
                 [\<lparr>alert_type = ''daily_budget_exceeded'', alert_provider = pname, timestamp = now\<rparr>]\<rparr>)
         else (True, st))"

text \<open>\<^verbatim>\<open>alternatives[0] || currentProvider\<close>: the empty name is falsy too.\<close>

definition findCheaperAlternative :: "EdgeRouter \<Rightarrow> string \<Rightarrow> string" where
  "findCheaperAlternative st currentProvider =
     (let current = entry st currentProvider;
          alternatives =
            js_sort (\<lambda>a b. cost (entry st a) - cost (entry st b))
              (filter (\<lambda>p. cost (entry st p) < cost current) (getHealthyProviders st))
      in case first alternatives of
           None \<Rightarrow> currentProvider
         | Some a \<Rightarrow> if a = [] then currentProvider else a)"

definition trackRequest :: "EdgeRouter \<Rightarrow> string \<Rightarrow> real \<Rightarrow> EdgeRouter" where
  "trackRequest st pname c =
     st\<lparr>requests := AList.update pname (get_or_zero (requests st) pname + 1) (requests st),
        costs := AList.update pname (get_or_zero (costs st) pname + c) (costs st),
        spent := AList.update pname (get_or_zero (spent st) pname + c) (spent st)\<rparr>"

text \<open>The healthy providers strictly cheaper than \<open>pname\<close>: the candidates of \<^verbatim>\<open>findCheaperAlternative\<close>.\<close>

definition cheaper :: "EdgeRouter \<Rightarrow> string \<Rightarrow> string list" where
  "cheaper st pname =
     filter (\<lambda>p. cost (entry st p) < cost (entry st pname)) (getHealthyProviders st)"

text \<open>
  \<^verbatim>\<open>routeToProvider\<close> calls itself on the cheaper alternative when the budget check fails.
  \<^verbatim>\<open>estimateTokens(request.messages)\<close> throws a \<^verbatim>\<open>TypeError\<close> on messages that are no array.
  The clock reading \<open>now\<close> stamps the alerts. It returns the routing (or the error thrown)
  and the router after the call.
\<close>

function routeToProvider ::
  "EdgeRouter \<Rightarrow> int \<Rightarrow> string \<Rightarrow> ChatRequest \<Rightarrow> string \<Rightarrow> (error + routing) \<times> EdgeRouter"
where
  "routeToProvider st now providerName request why =
     (case map_of (providers st) providerName of
        None \<Rightarrow> (Inl (UnknownProvider providerName), st)
      | Some p \<Rightarrow>
          (case messages request of
             Missing \<Rightarrow> (Inl TypeError, st)
           | NotArray \<Rightarrow> (Inl TypeError, st)
           | Array ms \<Rightarrow>
               (let tokens = estimateTokens ms;
                    estimatedCost = real tokens * cost p / 1000;
                    budget = checkBudget st now providerName estimatedCost
                in if \<not> fst budget \<and> findCheaperAlternative (snd budget) providerName \<noteq> providerName
                   then routeToProvider (snd budget) now
                          (findCheaperAlternative (snd budget) providerName) request ''budget_exceeded''
                   else (Inr \<lparr>r_provider = providerName, r_reason = why, r_cost = estimatedCost,
                              r_latency = latency p\<rparr>,
                         trackRequest (snd budget) providerName estimatedCost))))"
  by pat_completeness auto

text \<open>
  \<^verbatim>\<open>route\<close>, with the same guard \<^verbatim>\<open>!messages || !Array.isArray(messages)\<close>.
\<close>

definition route :: "EdgeRouter \<Rightarrow> int \<Rightarrow> ChatRequest \<Rightarrow> (error + routing) \<times> EdgeRouter" where
  "route st now request =
     (case messages request of
        Missing \<Rightarrow> (Inl InvalidRequest, st)
      | NotArray \<Rightarrow> (Inl InvalidRequest, st)
      | Array ms \<Rightarrow>
          if containsSensitive ms
          then routeToProvider st now ''local'' request ''sensitive_content''
          else (case strategies (strategy st) of
                  None \<Rightarrow> (Inl (UnknownStrategy (strategy_name (strategy st))), st)
                | Some strategyFn \<Rightarrow>
                    (case strategyFn st of
                       None \<Rightarrow> (Inl (UnknownProvider ''undefined''), st)
                     | Some pname \<Rightarrow> routeToProvider st now pname request (strategy_name (strategy st)))))"

text \<open>\<^verbatim>\<open>this.providers[provider].status = h\<close>: a \<^verbatim>\<open>TypeError\<close> when the entry is missing.\<close>

definition setStatus :: "EdgeRouter \<Rightarrow> string \<Rightarrow> health \<Rightarrow> error + EdgeRouter" where
  "setStatus st pname h =
     (case map_of (providers st) pname of
        None \<Rightarrow> Inl TypeError
      | Some p \<Rightarrow> Inr (st\<lparr>providers := AList.update pname (p\<lparr>status := h\<rparr>) (providers st)\<rparr>))"

text \<open>
  One health check of one provider. The probe's outcome \<open>isHealthy\<close> (a random draw in the
  source) and the clock reading are inputs.
\<close>

definition checkProviderHealth :: "EdgeRouter \<Rightarrow> int \<Rightarrow> string \<Rightarrow> bool \<Rightarrow> error + EdgeRouter" where
  "checkProviderHealth st now pname isHealthy =
     (let marked =
        (if \<not> isHealthy
         then (let fails = get_or_zero (failures st) pname;
                   st1 = st\<lparr>failures := AList.update pname (fails + 1) (failures st)\<rparr>
               in if fails \<ge> failureThreshold st1 then setStatus st1 pname Unhealthy else Inr st1)
         else setStatus (st\<lparr>failures := AList.update pname 0 (failures st)\<rparr>) pname Healthy)
      in case marked of
           Inl e \<Rightarrow> Inl e
         | Inr st2 \<Rightarrow> Inr (st2\<lparr>lastCheck := AList.update pname now (lastCheck st2)\<rparr>))"

text \<open>A run of health checks of one provider, one probe outcome each, one clock tick apart.\<close>

fun checks :: "EdgeRouter \<Rightarrow> int \<Rightarrow> string \<Rightarrow> bool list \<Rightarrow> error + EdgeRouter" where
  "checks st now pname [] = Inr st"
| "checks st now pname (b # bs) =
     (case checkProviderHealth st now pname b of
        Inl e \<Rightarrow> Inl e
      | Inr st1 \<Rightarrow> checks st1 (now + 1) pname bs)"

record AnalyticsSummary =
  s_totalRequests :: nat
  s_totalCost :: real
  s_uptime :: int
  s_requestsByProvider :: "(string \<times> nat) list"
  s_costsByProvider :: "(string \<times> real) list"
  s_healthStatus :: "(string \<times> health) list"
  s_daily_limit :: real
  s_daily_spent :: real
  s_alerts :: "alert list"

text \<open>
  \<^verbatim>\<open>getAnalytics\<close> reads the clock (\<^verbatim>\<open>uptime: Date.now() - startTime\<close>) and writes nothing:
  the summary and the router after the call.
\<close>

definition getAnalytics :: "EdgeRouter \<Rightarrow> int \<Rightarrow> AnalyticsSummary \<times> EdgeRouter" where
  "getAnalytics st now =
     (\<lparr>s_totalRequests = sum_list (map snd (requests st)),
       s_totalCost = sum_list (map snd (costs st)),
       s_uptime = now - startTime st,
       s_requestsByProvider = requests st,
       s_costsByProvider = costs st,
       s_healthStatus = map (\<lambda>p. (p, status (entry st p))) (map fst (providers st)),
       s_daily_limit = daily st,
       s_daily_spent = sum_list (map snd (spent st)),
       s_alerts = alerts st\<rparr>, st)"

section \<open>The GPTRouter (src/index.ts)\<close>

text \<open>
  The patterns of \<^verbatim>\<open>detectSensitive\<close>, in the order of the source: \<^verbatim>\<open>/api[_-]?key/i\<close>,
  \<^verbatim>\<open>/secret[_-]?key/i\<close>, \<^verbatim>\<open>/bearer\s+[A-Za-z0-9-._~+/]+=*/i\<close>, \<^verbatim>\<open>/password[:=]\s*\S+/i\<close>, the
  social security number, the credit card number,
  \<^verbatim>\<open>/patient|medical|diagnosis|prescription/i\<close> and \<^verbatim>\<open>/salary|income|ssn|social.?security/i\<close>.
\<close>

definition rx_secret_key :: regex where
  "rx_secret_key = rxi (lits ''secret'' @ [Opt (OneOf [Lit CHR ''_'', Lit CHR ''-''])] @ lits ''key'')"

definition bearer_class :: atom where
  "bearer_class =
     OneOf [Range CHR ''A'' CHR ''Z'', Range CHR ''a'' CHR ''z'', Range CHR ''0'' CHR ''9'',
            Lit CHR ''-'', Lit CHR ''.'', Lit CHR ''_'', Lit CHR ''~'', Lit CHR ''+'', Lit CHR ''/'']"

definition rx_bearer_token :: regex where
  "rx_bearer_token = rxi (lits ''bearer'' @ [Plus Space, Plus bearer_class, Star (Lit CHR ''='')])"

definition rx_password_value :: regex where
  "rx_password_value =
     rxi (lits ''password'' @ [One (OneOf [Lit CHR '':'', Lit CHR ''=''])] @ [Star Space, Plus NonSpace])"

definition rx_medical :: regex where
  "rx_medical = rxi_alts [lits ''patient'', lits ''medical'', lits ''diagnosis'', lits ''prescription'']"

definition rx_financial :: regex where
  "rx_financial =
     rxi_alts [lits ''salary'', lits ''income'', lits ''ssn'',
               lits ''social'' @ [Opt Dot] @ lits ''security'']"

definition gpt_patterns :: "regex list" where
  "gpt_patterns =
     [rx_api_key, rx_secret_key, rx_bearer_token, rx_password_value, rx_ssn, rx_card,
      rx_medical, rx_financial]"

text \<open>
  \<^verbatim>\<open>p.test(m.content)\<close> without a guard: \<^verbatim>\<open>test\<close> converts its argument to a string, so a
  missing content is tested as \<^verbatim>\<open>"undefined"\<close> and a null one as \<^verbatim>\<open>"null"\<close>.
\<close>

fun to_string :: "content \<Rightarrow> string" where
  "to_string Undefined = ''undefined''"
| "to_string Null = ''null''"
| "to_string (Str s) = s"

definition detectSensitive :: "message list \<Rightarrow> bool" where
  "detectSensitive msgs =
     list_ex (\<lambda>m. list_ex (\<lambda>p. test p (to_string (content m))) gpt_patterns) msgs"

text \<open>
  A \<^verbatim>\<open>Provider\<close>: \<^verbatim>\<open>reliability\<close> and \<^verbatim>\<open>privacy\<close> are optional. The field names carry a prime
  where the multi-provider router has a field of the same name.
\<close>

record Provider =
  name :: string
  cost' :: real
  latency' :: real
  available :: bool
  reliability' :: "real option"
  privacy' :: "privacy option"

text \<open>What \<^verbatim>\<open>getDate()\<close>, \<^verbatim>\<open>getMonth()\<close> and \<^verbatim>\<open>getFullYear()\<close> read of a \<^verbatim>\<open>Date\<close>.\<close>

record Date =
  getFullYear :: nat
  getMonth :: nat
  getDate :: nat

text \<open>The router object; a budget of \<^verbatim>\<open>Infinity\<close> is \<open>None\<close>. The debug flag and the timer are left out.\<close>

record GPTRouter =
  gpt_providers :: "(string \<times> Provider) list"
  gpt_strategy :: strategy
  dailyBudget :: "real option"
  monthlyBudget :: "real option"
  spending :: "(string \<times> real) list"
  requestCount :: nat
  totalTokens :: nat
  requestsByProvider :: "(string \<times> nat) list"
  latencies :: "real list"
  dailySpent :: real
  monthlySpent :: real
  lastResetDate :: Date

record PartialProvider =
  pp_name :: "string option"
  pp_cost :: "real option"
  pp_latency :: "real option"
  pp_available :: "bool option"
  pp_reliability :: "real option"
  pp_privacy :: "privacy option"

record RouterConfig =
  rc_strategy :: strategy
  rc_dailyBudget :: "real option"
  rc_monthlyBudget :: "real option"
  rc_providers :: "(string \<times> PartialProvider) list option"

definition defaults :: "(string \<times> Provider) list" where
  "defaults =
     [(''openai'', \<lparr>name = ''openai'', cost' = 0.015, latency' = 200, available = True,
                    reliability' = Some 0.99, privacy' = Some Cloud\<rparr>),
      (''anthropic'', \<lparr>name = ''anthropic'', cost' = 0.012, latency' = 180, available = True,
                       reliability' = Some 0.98, privacy' = Some Cloud\<rparr>),
      (''cloudflare'', \<lparr>name = ''cloudflare'', cost' = 0.001, latency' = 50, available = True,
                        reliability' = Some 0.95, privacy' = Some Cloud\<rparr>),
      (''groq'', \<lparr>name = ''groq'', cost' = 0.0001, latency' = 30, available = True,
                  reliability' = Some 0.93, privacy' = Some Cloud\<rparr>),
      (''together'', \<lparr>name = ''together'', cost' = 0.002, latency' = 60, available = True,
                      reliability' = Some 0.94, privacy' = Some Cloud\<rparr>),
      (''local'', \<lparr>name = ''local'', cost' = 0, latency' = 100, available = True,
                   reliability' = Some 1.0, privacy' = Some Local\<rparr>)]"

text \<open>\<^verbatim>\<open>{ ...config, ...customConfig }\<close>.\<close>

definition spread :: "Provider \<Rightarrow> PartialProvider \<Rightarrow> Provider" where
  "spread p c =
     \<lparr>name = (case pp_name c of None \<Rightarrow> name p | Some v \<Rightarrow> v),
      cost' = (case pp_cost c of None \<Rightarrow> cost' p | Some v \<Rightarrow> v),
      latency' = (case pp_latency c of None \<Rightarrow> latency' p | Some v \<Rightarrow> v),
      available = (case pp_available c of None \<Rightarrow> available p | Some v \<Rightarrow> v),
      reliability' = (case pp_reliability c of None \<Rightarrow> reliability' p | Some v \<Rightarrow> Some v),
      privacy' = (case pp_privacy c of None \<Rightarrow> privacy' p | Some v \<Rightarrow> Some v)\<rparr>"

definition merged_defaults :: "(string \<times> PartialProvider) list option \<Rightarrow> (string \<times> Provider) list" where
  "merged_defaults custom =
     map (\<lambda>(n, config).
            (n, case custom of
                  None \<Rightarrow> config
                | Some cs \<Rightarrow> (case map_of cs n of None \<Rightarrow> config | Some c \<Rightarrow> spread config c)))
       defaults"

text \<open>
  The additional custom providers: those with a new name, a cost and a latency, over the
  defaults \<^verbatim>\<open>{name, available: true, reliability: 0.95, privacy: 'cloud'}\<close>.
\<close>

fun add_custom :: "(string \<times> PartialProvider) list \<Rightarrow> (string \<times> Provider) list \<Rightarrow> (string \<times> Provider) list" where
  "add_custom [] ps = ps"
| "add_custom ((n, c) # rest) ps =
     add_custom rest
       (if map_of ps n = None \<and> pp_cost c \<noteq> None \<and> pp_latency c \<noteq> None
        then ps @ [(n, spread \<lparr>name = n, cost' = 0, latency' = 0, available = True,
                               reliability' = Some 0.95, privacy' = Some Cloud\<rparr> c)]
        else ps)"

definition initializeProviders :: "(string \<times> PartialProvider) list option \<Rightarrow> (string \<times> Provider) list" where
  "initializeProviders custom =
     (case custom of
        None \<Rightarrow> merged_defaults custom
      | Some cs \<Rightarrow> add_custom cs (merged_defaults custom))"

text \<open>\<^verbatim>\<open>config.dailyBudget || Infinity\<close>: a missing budget and a budget of 0 are unbounded.\<close>

definition or_infinity :: "real option \<Rightarrow> real option" where
  "or_infinity b = (case b of None \<Rightarrow> None | Some v \<Rightarrow> if v = 0 then None else Some v)"

definition new_GPTRouter :: "RouterConfig \<Rightarrow> Date \<Rightarrow> GPTRouter" where
  "new_GPTRouter config now =
     \<lparr>gpt_providers = initializeProviders (rc_providers config),
      gpt_strategy = rc_strategy config,
      dailyBudget = or_infinity (rc_dailyBudget config),
      monthlyBudget = or_infinity (rc_monthlyBudget config),
      spending = map (\<lambda>e. (fst e, 0)) (initializeProviders (rc_providers config)),
      requestCount = 0,
      totalTokens = 0,
      requestsByProvider = map (\<lambda>e. (fst e, 0)) (initializeProviders (rc_providers config)),
      latencies = [],
      dailySpent = 0,
      monthlySpent = 0,
      lastResetDate = now\<rparr>"

definition gpt_getHealthyProviders :: "GPTRouter \<Rightarrow> Provider list" where
  "gpt_getHealthyProviders st = filter available (map snd (gpt_providers st))"

text \<open>\<open>x \<le> b\<close> for a budget \<open>b\<close> that may be \<^verbatim>\<open>Infinity\<close>.\<close>

fun le_budget :: "real \<Rightarrow> real option \<Rightarrow> bool" where
  "le_budget x None = True"
| "le_budget x (Some b) = (x \<le> b)"

definition filterByBudget :: "GPTRouter \<Rightarrow> Provider list \<Rightarrow> Provider list" where
  "filterByBudget st ps =
     (let estimatedTokens = 500
      in filter (\<lambda>p. let estimatedCost = (cost' p * estimatedTokens) / 1000
                     in le_budget (dailySpent st + estimatedCost) (dailyBudget st)) ps)"

text \<open>\<^verbatim>\<open>p.reliability || 0.95\<close>.\<close>

definition reliability_or :: "Provider \<Rightarrow> real" where
  "reliability_or p = (case reliability' p of None \<Rightarrow> 0.95 | Some r \<Rightarrow> if r = 0 then 0.95 else r)"

definition is_local :: "Provider \<Rightarrow> bool" where
  "is_local p = (privacy' p = Some Local)"

definition privacy_cmp :: "Provider \<Rightarrow> Provider \<Rightarrow> real" where
  "privacy_cmp a b =
     (if is_local a \<and> \<not> is_local b then - 1
      else if \<not> is_local a \<and> is_local b then 1
      else cost' a - cost' b)"

definition balanced_score :: "Provider \<Rightarrow> real" where
  "balanced_score a = (cost' a / 0.015) * 0.5 + (latency' a / 200) * 0.5"

text \<open>The \<^verbatim>\<open>switch\<close> of \<^verbatim>\<open>selectProvider\<close>; \<open>None\<close> is \<^verbatim>\<open>undefined\<close> (an empty list).\<close>

fun by_strategy :: "strategy \<Rightarrow> Provider list \<Rightarrow> Provider option" where
  "by_strategy Cheapest ps = first (js_sort (\<lambda>a b. cost' a - cost' b) ps)"
| "by_strategy Fastest ps = first (js_sort (\<lambda>a b. latency' a - latency' b) ps)"
| "by_strategy Balanced ps = first (js_sort (\<lambda>a b. balanced_score a - balanced_score b) ps)"
| "by_strategy PrivacyFirst ps = first (js_sort privacy_cmp ps)"
| "by_strategy Reliability ps = first (js_sort (\<lambda>a b. reliability_or b - reliability_or a) ps)"
| "by_strategy (Other s) ps = first ps"

text \<open>
  \<^verbatim>\<open>selectProvider\<close>: for a sensitive request the provider named \<^verbatim>\<open>local\<close> if it is registered
  and available, else the first provider of the list with \<^verbatim>\<open>privacy === 'local'\<close>; otherwise,
  and when there is neither, the choice of the strategy.
\<close>

definition selectProvider :: "GPTRouter \<Rightarrow> Provider list \<Rightarrow> bool \<Rightarrow> Provider option" where
  "selectProvider st ps isSensitive =
     (let localProvider = map_of (gpt_providers st) ''local'';
          privateProviders = filter (\<lambda>p. privacy' p = Some Local) ps
      in if isSensitive \<and> (case localProvider of None \<Rightarrow> False | Some lp \<Rightarrow> available lp)
         then localProvider
         else if isSensitive \<and> length privateProviders > 0
         then first privateProviders
         else by_strategy (gpt_strategy st) ps)"

text \<open>\<^verbatim>\<open>msg.content.length\<close> throws a \<^verbatim>\<open>TypeError\<close> on a missing or null content.\<close>

fun content_length :: "content \<Rightarrow> error + nat" where
  "content_length Undefined = Inl TypeError"
| "content_length Null = Inl TypeError"
| "content_length (Str s) = Inr (length s)"

fun totalChars :: "nat \<Rightarrow> message list \<Rightarrow> error + nat" where
  "totalChars acc [] = Inr acc"
| "totalChars acc (m # ms) =
     (case content_length (content m) of
        Inl e \<Rightarrow> Inl e
      | Inr n \<Rightarrow> totalChars (acc + n) ms)"

definition gpt_estimateTokens :: "message list \<Rightarrow> error + nat" where
  "gpt_estimateTokens ms =
     (case totalChars 0 ms of Inl e \<Rightarrow> Inl e | Inr n \<Rightarrow> Inr (ceil_div4 n))"

text \<open>
  \<^verbatim>\<open>makeRequest\<close>; \<open>actualLatency\<close> is the time measured around the simulated call, an
  input here.
\<close>

definition makeRequest ::
  "GPTRouter \<Rightarrow> real \<Rightarrow> Provider \<Rightarrow> message list \<Rightarrow> (error + routing) \<times> GPTRouter" where
  "makeRequest st actualLatency p ms =
     (case gpt_estimateTokens ms of
        Inl e \<Rightarrow> (Inl e, st)
      | Inr estimatedTokens \<Rightarrow>
          (let c = (cost' p * real estimatedTokens) / 1000
           in (Inr \<lparr>r_provider = name p, r_reason = strategy_name (gpt_strategy st), r_cost = c,
                    r_latency = actualLatency\<rparr>,
               st\<lparr>requestCount := requestCount st + 1,
                  totalTokens := totalTokens st + estimatedTokens,
                  requestsByProvider :=
                    AList.update (name p) (get_or_zero (requestsByProvider st) (name p) + 1)
                      (requestsByProvider st),
                  spending := AList.update (name p) (get_or_zero (spending st) (name p) + c) (spending st),
                  dailySpent := dailySpent st + c,
                  monthlySpent := monthlySpent st + c,
                  latencies := latencies st @ [actualLatency]\<rparr>)))"

definition checkBudgetReset :: "GPTRouter \<Rightarrow> Date \<Rightarrow> GPTRouter" where
  "checkBudgetReset st now =
     (let st1 = (if getDate now \<noteq> getDate (lastResetDate st)
                 then st\<lparr>dailySpent := 0, lastResetDate := now\<rparr>
                 else st)
      in if getMonth now \<noteq> getMonth (lastResetDate st1)
         then st1\<lparr>monthlySpent := 0\<rparr>
         else st1)"

text \<open>
  \<^verbatim>\<open>route\<close> at the date \<open>now\<close>. There is no check of \<^verbatim>\<open>request.messages\<close>:
  \<^verbatim>\<open>messages.some\<close> throws a \<^verbatim>\<open>TypeError\<close> when it is missing or not an array.
\<close>

definition gpt_route ::
  "GPTRouter \<Rightarrow> Date \<Rightarrow> real \<Rightarrow> ChatRequest \<Rightarrow> (error + routing) \<times> GPTRouter" where
  "gpt_route st now actualLatency request =
     (let st1 = checkBudgetReset st now
      in case messages request of
           Missing \<Rightarrow> (Inl TypeError, st1)
         | NotArray \<Rightarrow> (Inl TypeError, st1)
         | Array ms \<Rightarrow>
             (let isSensitive = detectSensitive ms;
                  avail = gpt_getHealthyProviders st1
              in if length avail = 0 then (Inl NoAvailableProviders, st1)
                 else (let withinBudget = filterByBudget st1 avail
                       in case selectProvider st1
                                 (if length withinBudget > 0 then withinBudget else avail) isSensitive of
                            None \<Rightarrow> (Inl TypeError, st1)
                          | Some p \<Rightarrow> makeRequest st1 actualLatency p ms)))"

text \<open>
  \<^verbatim>\<open>performHealthCheck\<close>: each provider's \<^verbatim>\<open>available\<close> becomes the outcome of its probe
  (a random draw in the source, the function \<open>probe\<close> here).
\<close>

definition performHealthCheck :: "GPTRouter \<Rightarrow> (string \<Rightarrow> bool) \<Rightarrow> GPTRouter" where
  "performHealthCheck st probe =
     st\<lparr>gpt_providers := map (\<lambda>(k, p). (k, p\<lparr>available := probe k\<rparr>)) (gpt_providers st)\<rparr>"

text \<open>
  \<^verbatim>\<open>Number(x.toFixed(4))\<close>: to the nearest multiple of 0.0001, a tie away from zero.
  \<^verbatim>\<open>Math.round(x)\<close>: to the nearest integer, a tie upwards.
\<close>

definition toFixed4 :: "real \<Rightarrow> real" where
  "toFixed4 x =
     (if x < 0 then - (real_of_int \<lfloor>- x * 10000 + 1 / 2\<rfloor> / 10000)
      else real_of_int \<lfloor>x * 10000 + 1 / 2\<rfloor> / 10000)"

definition round_half_up :: "real \<Rightarrow> int" where
  "round_half_up x = \<lfloor>x + 1 / 2\<rfloor>"

record BudgetStatus =
  bs_spent :: real
  bs_limit :: real
  bs_remaining :: real

record Analytics =
  a_totalRequests :: nat
  a_totalCost :: real
  a_totalTokens :: nat
  a_requestsByProvider :: "(string \<times> nat) list"
  a_costsByProvider :: "(string \<times> real) list"
  a_averageLatency :: int
  a_daily :: BudgetStatus
  a_monthly :: "BudgetStatus option"

text \<open>\<^verbatim>\<open>getAnalytics\<close> reads no clock and writes nothing: the summary and the router after the call.\<close>

definition gpt_getAnalytics :: "GPTRouter \<Rightarrow> Analytics \<times> GPTRouter" where
  "gpt_getAnalytics st =
     (let avgLatency = (if length (latencies st) > 0
                        then sum_list (latencies st) / real (length (latencies st))
                        else 0)
      in (\<lparr>a_totalRequests = requestCount st,
           a_totalCost = toFixed4 (sum_list (map snd (spending st))),
           a_totalTokens = totalTokens st,
           a_requestsByProvider = requestsByProvider st,
           a_costsByProvider = map (\<lambda>(k, c). (k, toFixed4 c)) (spending st),
           a_averageLatency = round_half_up avgLatency,
           a_daily =
             \<lparr>bs_spent = toFixed4 (dailySpent st),
              bs_limit = (case dailyBudget st of None \<Rightarrow> 0 | Some b \<Rightarrow> b),
              bs_remaining = (case dailyBudget st of None \<Rightarrow> 0 | Some b \<Rightarrow> toFixed4 (b - dailySpent st))\<rparr>,
           a_monthly =
             (case monthlyBudget st of
                None \<Rightarrow> None
              | Some b \<Rightarrow> Some \<lparr>bs_spent = toFixed4 (monthlySpent st), bs_limit = b,
                                bs_remaining = toFixed4 (b - monthlySpent st)\<rparr>)\<rparr>, st))"

section \<open>Properties\<close>

subsection \<open>Inputs used in the examples\<close>

definition lacks_content :: "message \<Rightarrow> bool" where
  "lacks_content m = (content m = Undefined \<or> content m = Null)"

definition user :: "string \<Rightarrow> message" where
  "user s = \<lparr>role = ''user'', content = Str s\<rparr>"

definition request_of :: "string \<Rightarrow> ChatRequest" where
  "request_of s = \<lparr>messages = Array [user s]\<rparr>"

definition no_overrides :: ProviderOverride where
  "no_overrides = \<lparr>o_cost = None, o_latency = None, o_reliability = None, o_privacy = None, o_status = None\<rparr>"

text \<open>\<^verbatim>\<open>new EdgeRouter({strategy: s})\<close> and \<^verbatim>\<open>new GPTRouter({strategy: s})\<close>.\<close>

definition edge_config :: "strategy \<Rightarrow> EdgeRouterConfig" where
  "edge_config s = \<lparr>cfg_providers = [], cfg_strategy = Some s, cfg_dailyBudget = None, cfg_monthlyBudget = None\<rparr>"

definition no_fields :: PartialProvider where
  "no_fields = \<lparr>pp_name = None, pp_cost = None, pp_latency = None, pp_available = None,
                 pp_reliability = None, pp_privacy = None\<rparr>"

definition gpt_config :: "strategy \<Rightarrow> RouterConfig" where
  "gpt_config s = \<lparr>rc_strategy = s, rc_dailyBudget = None, rc_monthlyBudget = None, rc_providers = None\<rparr>"

definition jan31 :: Date where
  "jan31 = \<lparr>getFullYear = 2025, getMonth = 0, getDate = 31\<rparr>"

definition feb1 :: Date where
  "feb1 = \<lparr>getFullYear = 2025, getMonth = 1, getDate = 1\<rparr>"

text \<open>
  \<^verbatim>\<open>new EdgeRouter({strategy: 'cheapest', dailyBudget: 0.000001, providers: {local: {cost: 0.02}}})\<close>:
  the local model is given a price.
\<close>

definition priced_local_router :: EdgeRouter where
  "priced_local_router =
     new_EdgeRouter ((edge_config Cheapest)
       \<lparr>cfg_providers := [(''local'', no_overrides\<lparr>o_cost := Some 0.02\<rparr>)],
        cfg_dailyBudget := Some 0.000001\<rparr>) 0"

text \<open>
  \<^verbatim>\<open>new GPTRouter({strategy: 'cheapest', dailyBudget: 0.1, providers: {local: {available: false},
  vault: {cost: 1, latency: 10, privacy: 'local'}}})\<close>: the provider named \<^verbatim>\<open>local\<close> is down and a
  second local provider, \<^verbatim>\<open>vault\<close>, is up.
\<close>

definition vault_router :: GPTRouter where
  "vault_router =
     new_GPTRouter ((gpt_config Cheapest)
       \<lparr>rc_dailyBudget := Some 0.1,
        rc_providers := Some [(''local'', no_fields\<lparr>pp_available := Some False\<rparr>),
                              (''vault'', no_fields\<lparr>pp_cost := Some 1, pp_latency := Some 10,
                                                    pp_privacy := Some Local\<rparr>)]\<rparr>) jan31"

text \<open>A \<^verbatim>\<open>GPTRouter\<close> created on 31 January that has spent 3 that day and 5 that month.\<close>

definition january_router :: GPTRouter where
  "january_router = (new_GPTRouter (gpt_config Cheapest) jan31)\<lparr>dailySpent := 3, monthlySpent := 5\<rparr>"





subsection \<open>Termination of \<^verbatim>\<open>routeToProvider\<close>\<close>

text \<open>Termination: each call moves to a strictly cheaper healthy provider.\<close>

lemma set_insert_by: "set (insert_by cmp x ys) = insert x (set ys)"
  by (induction ys) auto

lemma set_js_sort: "set (js_sort cmp xs) = set xs"
  by (induction xs) (auto simp: js_sort_def set_insert_by)

lemma first_Some_mem: "first xs = Some x \<Longrightarrow> x \<in> set xs"
  by (cases xs) auto

lemma providers_checkBudget: "providers (snd (checkBudget st now pname c)) = providers st"
  by (simp add: checkBudget_def Let_def)

lemma entry_checkBudget: "entry (snd (checkBudget st now pname c)) = entry st"
  by (rule ext) (simp add: entry_def providers_checkBudget)

lemma getHealthy_checkBudget:
  "getHealthyProviders (snd (checkBudget st now pname c)) = getHealthyProviders st"
  by (simp add: getHealthyProviders_def entry_checkBudget providers_checkBudget)

lemma findCheaperAlternative_cases:
  "findCheaperAlternative st pname = pname \<or>
   findCheaperAlternative st pname \<in> set (cheaper st pname)"
proof -
  let ?alts = "js_sort (\<lambda>a b. cost (entry st a) - cost (entry st b)) (cheaper st pname)"
  show ?thesis
  proof (cases "first ?alts")
    case None
    then show ?thesis by (simp add: findCheaperAlternative_def cheaper_def Let_def)
  next
    case (Some a)
    then have "a \<in> set (cheaper st pname)"
      using first_Some_mem set_js_sort by fastforce
    with Some show ?thesis by (simp add: findCheaperAlternative_def cheaper_def Let_def)
  qed
qed

lemma length_filter_mono:
  "(\<And>x. x \<in> set xs \<Longrightarrow> P x \<Longrightarrow> Q x) \<Longrightarrow> length (filter P xs) \<le> length (filter Q xs)"
  by (induction xs) auto

lemma length_filter_strict:
  "\<lbrakk>\<And>x. x \<in> set xs \<Longrightarrow> P x \<Longrightarrow> Q x; y \<in> set xs; Q y; \<not> P y\<rbrakk>
   \<Longrightarrow> length (filter P xs) < length (filter Q xs)"
proof (induction xs)
  case Nil
  then show ?case by simp
next
  case (Cons x xs)
  have le: "length (filter P xs) \<le> length (filter Q xs)"
    using Cons.prems(1) by (intro length_filter_mono) auto
  show ?case
  proof (cases "y = x")
    case True
    with Cons.prems le show ?thesis by auto
  next
    case False
    with Cons have "length (filter P xs) < length (filter Q xs)" by auto
    with Cons.prems(1) show ?thesis by auto
  qed
qed

lemma cheaper_decreases:
  assumes "a \<in> set (cheaper st pname)"
  shows "length (cheaper st a) < length (cheaper st pname)"
  unfolding cheaper_def
proof (rule length_filter_strict [where y = a])
  from assms show "a \<in> set (getHealthyProviders st)" by (simp add: cheaper_def)
  from assms show "cost (entry st a) < cost (entry st pname)" by (simp add: cheaper_def)
  show "\<not> cost (entry st a) < cost (entry st a)" by simp
  fix x assume "cost (entry st x) < cost (entry st a)"
  with assms show "cost (entry st x) < cost (entry st pname)" by (simp add: cheaper_def)
qed

termination routeToProvider
proof (relation "measure (\<lambda>(st, now, pname, request, why). length (cheaper st pname))")
  show "wf (measure (\<lambda>(st, now, pname, request, why). length (cheaper st pname)))" by simp
next
  fix st :: EdgeRouter and now providerName and request :: ChatRequest and why :: string
    and p ms tokens estimatedCost budget
  assume b: "budget = checkBudget st now providerName estimatedCost"
    and c: "\<not> fst budget \<and> findCheaperAlternative (snd budget) providerName \<noteq> providerName"
  let ?a = "findCheaperAlternative (snd budget) providerName"
  have same: "cheaper (snd budget) = cheaper st"
    by (intro ext) (simp add: cheaper_def b entry_checkBudget getHealthy_checkBudget)
  from c findCheaperAlternative_cases [of "snd budget" providerName]
  have "?a \<in> set (cheaper st providerName)" by (simp add: same)
  then have "length (cheaper st ?a) < length (cheaper st providerName)"
    by (rule cheaper_decreases)
  then show "((snd budget, now, ?a, request, ''budget_exceeded''), (st, now, providerName, request, why))
        \<in> measure (\<lambda>(st, now, pname, request, why). length (cheaper st pname))"
    by (simp add: same)
qed

declare routeToProvider.simps [simp del]

subsection \<open>Evaluating the patterns and the routers\<close>

lemma digits_simps:
  "digits 2 = [One Digit, One Digit]"
  "digits 3 = [One Digit, One Digit, One Digit]"
  "digits 4 = [One Digit, One Digit, One Digit, One Digit]"
  by (simp_all add: digits_def eval_nat_numeral)

lemmas rx_defs = test_def rx_def rxi_def rxi_alts_def lits_def digits_simps rx_api_key_def rx_bearer_def
  rx_ssn_def sep_def rx_card_def rx_secret_key_def bearer_class_def rx_bearer_token_def
  rx_password_value_def rx_medical_def rx_financial_def to_upper_def to_lower_def is_digit_def
  is_space_def is_line_end_def is_word_def in_range_def code_in_range_def word_at_def next_char_def

lemmas edge_defs = new_EdgeRouter_def default_providers_def assign_def or_default_def
  initializeSpentTracking_def entry_def getHealthyProviders_def routeToCheapest_def
  routeToFastest_def routeBalanced_def routePrivacyFirst_def routeReliability_def js_sort_def
  checkBudget_def findCheaperAlternative_def trackRequest_def get_or_zero_def estimateTokens_def
  ceil_div4_def route_def setStatus_def checkProviderHealth_def getAnalytics_def
  edge_config_def no_overrides_def request_of_def user_def Let_def routeToProvider.simps

lemmas gpt_defs = new_GPTRouter_def defaults_def spread_def merged_defaults_def
  initializeProviders_def or_infinity_def gpt_getHealthyProviders_def filterByBudget_def
  reliability_or_def is_local_def privacy_cmp_def balanced_score_def selectProvider_def
  gpt_estimateTokens_def makeRequest_def checkBudgetReset_def gpt_route_def js_sort_def
  get_or_zero_def ceil_div4_def gpt_config_def no_fields_def request_of_def user_def
  performHealthCheck_def gpt_getAnalytics_def toFixed4_def round_half_up_def Let_def

subsection \<open>Sorting\<close>

lemma first_insert_by:
  "first (insert_by cmp x ys) =
     (case ys of [] \<Rightarrow> Some x | y # _ \<Rightarrow> Some (if cmp x y \<le> 0 then x else y))"
  by (cases ys) auto

lemma js_sort_Cons: "js_sort cmp (x # xs) = insert_by cmp x (js_sort cmp xs)"
  by (simp add: js_sort_def)

lemma js_sort_Nil: "js_sort cmp [] = []"
  by (simp add: js_sort_def)


text \<open>The head of an array sorted by the difference of a key has the least key.\<close>

lemma first_js_sort_least:
  assumes "xs \<noteq> []"
  shows "\<exists>m. first (js_sort (\<lambda>a b. f a - f b) xs) = Some m \<and> m \<in> set xs \<and> (\<forall>y\<in>set xs. (f m :: real) \<le> f y)"
  using assms
proof (induction xs)
  case Nil
  then show ?case by simp
next
  case (Cons x xs)
  show ?case
  proof (cases "xs = []")
    case True
    then show ?thesis by (simp add: js_sort_Cons js_sort_Nil)
  next
    case False
    with Cons.IH obtain m where m: "first (js_sort (\<lambda>a b. f a - f b) xs) = Some m"
      "m \<in> set xs" "\<forall>y\<in>set xs. f m \<le> f y" by blast
    from m(1) obtain rest where r: "js_sort (\<lambda>a b. f a - f b) xs = m # rest"
      by (cases "js_sort (\<lambda>a b. f a - f b) xs") auto
    show ?thesis
    proof (cases "f x \<le> f m")
      case True
      with m r show ?thesis by (auto simp: js_sort_Cons)
    next
      case False
      with m r show ?thesis by (auto simp: js_sort_Cons)
    qed
  qed
qed



subsection \<open>Token estimates\<close>



lemma totalChars_error: "totalChars acc ms = Inl e \<Longrightarrow> e = TypeError"
proof (induction ms arbitrary: acc)
  case Nil
  then show ?case by simp
next
  case (Cons m ms)
  then show ?case by (cases "content m") auto
qed

lemma gpt_estimateTokens_error: "gpt_estimateTokens ms = Inl e \<Longrightarrow> e = TypeError"
  by (auto simp: gpt_estimateTokens_def dest: totalChars_error split: sum.splits)

lemma estimateTokens_Nil: "estimateTokens [] = 0"
  by (simp add: estimateTokens_def ceil_div4_def)

subsection \<open>What \<^verbatim>\<open>routeToProvider\<close> returns\<close>

text \<open>
  For a registered provider and a request with messages, \<^verbatim>\<open>routeToProvider\<close> returns a
  routing: either to the provider asked for, with the reason given, or to a strictly cheaper
  healthy provider, with the reason \<^verbatim>\<open>budget_exceeded\<close>.
\<close>

lemma healthy_known: "n \<in> set (getHealthyProviders st) \<Longrightarrow> map_of (providers st) n \<noteq> None"
  by (auto simp: getHealthyProviders_def map_of_eq_None_iff)

lemma cheaper_checkBudget: "cheaper (snd (checkBudget st now pname c)) = cheaper st"
  by (intro ext) (simp add: cheaper_def entry_checkBudget getHealthy_checkBudget)

lemma cheaper_trans:
  "a \<in> set (cheaper st pname) \<Longrightarrow> b \<in> set (cheaper st a) \<Longrightarrow> b \<in> set (cheaper st pname)"
  by (auto simp: cheaper_def)

lemma routeToProvider_result:
  assumes "map_of (providers st) pname \<noteq> None" and "messages request = Array ms"
  shows "\<exists>d. fst (routeToProvider st now pname request why) = Inr d
           \<and> r_cost d = real (estimateTokens ms) * cost (entry st (r_provider d)) / 1000
           \<and> r_latency d = latency (entry st (r_provider d))
           \<and> (r_provider d = pname \<and> r_reason d = why
                \<or> r_reason d = ''budget_exceeded'' \<and> r_provider d \<in> set (cheaper st pname))"
  using assms
proof (induction st now pname request why rule: routeToProvider.induct)
  case (1 st now providerName request why)
  from "1.prems" obtain p where p: "map_of (providers st) providerName = Some p" by auto
  let ?c = "real (estimateTokens ms) * cost p / 1000"
  let ?b = "checkBudget st now providerName ?c"
  let ?a = "findCheaperAlternative (snd ?b) providerName"
  have e: "entry st providerName = p" using p by (simp add: entry_def)
  show ?case
  proof (cases "\<not> fst ?b \<and> ?a \<noteq> providerName")
    case True
    with findCheaperAlternative_cases [of "snd ?b" providerName]
    have a: "?a \<in> set (cheaper st providerName)" by (simp add: cheaper_checkBudget)
    then have "?a \<in> set (getHealthyProviders st)" by (simp add: cheaper_def)
    then have known: "map_of (providers (snd ?b)) ?a \<noteq> None"
      by (simp add: healthy_known providers_checkBudget)
    from "1.IH" [OF p "1.prems"(2) refl refl refl True known "1.prems"(2)]
    obtain d where d: "fst (routeToProvider (snd ?b) now ?a request ''budget_exceeded'') = Inr d"
      "r_cost d = real (estimateTokens ms) * cost (entry st (r_provider d)) / 1000"
      "r_latency d = latency (entry st (r_provider d))"
      "r_provider d = ?a \<and> r_reason d = ''budget_exceeded''
         \<or> r_reason d = ''budget_exceeded'' \<and> r_provider d \<in> set (cheaper st ?a)"
      by (auto simp: entry_checkBudget cheaper_checkBudget)
    from d(4) a have r: "r_reason d = ''budget_exceeded'' \<and> r_provider d \<in> set (cheaper st providerName)"
      using cheaper_trans [OF a] by auto
    have "routeToProvider st now providerName request why
            = routeToProvider (snd ?b) now ?a request ''budget_exceeded''"
      using p "1.prems"(2) True by (subst routeToProvider.simps) (simp add: Let_def)
    with d r show ?thesis by auto
  next
    case False
    then have "fst (routeToProvider st now providerName request why)
            = Inr \<lparr>r_provider = providerName, r_reason = why, r_cost = ?c, r_latency = latency p\<rparr>"
      using p "1.prems"(2) by (subst routeToProvider.simps) (auto simp: Let_def)
    with e show ?thesis by simp
  qed
qed

lemma routeToProvider_not_invalid:
  "fst (routeToProvider st now pname request why) \<noteq> Inl InvalidRequest"
proof (cases "map_of (providers st) pname")
  case None
  then show ?thesis by (subst routeToProvider.simps) simp
next
  case (Some p)
  show ?thesis
  proof (cases "messages request")
    case Missing
    with Some show ?thesis by (subst routeToProvider.simps) simp
  next
    case NotArray
    with Some show ?thesis by (subst routeToProvider.simps) simp
  next
    case (Array ms)
    from routeToProvider_result [OF _ this, of st pname now why] \<open>map_of (providers st) pname = Some p\<close>
    show ?thesis by auto
  qed
qed

lemma routeToProvider_within_budget:
  assumes "map_of (providers st) pname = Some p" and "messages request = Array ms"
    and "get_or_zero (spent st) pname + real (estimateTokens ms) * cost p / 1000 \<le> daily st"
  shows "fst (routeToProvider st now pname request why)
           = Inr \<lparr>r_provider = pname, r_reason = why,
                  r_cost = real (estimateTokens ms) * cost p / 1000, r_latency = latency p\<rparr>"
  using assms by (subst routeToProvider.simps) (simp add: checkBudget_def Let_def)

lemma strategy_picks_healthy:
  assumes "strategies s = Some f" and "f st = Some n"
  shows "n \<in> set (getHealthyProviders st)"
proof -
  have sorted: "\<And>cmp. first (js_sort cmp (getHealthyProviders st)) = Some n \<Longrightarrow> ?thesis"
    using first_Some_mem set_js_sort by fastforce
  show ?thesis
  proof (cases s)
    case Cheapest
    with assms sorted show ?thesis by (simp add: routeToCheapest_def)
  next
    case Fastest
    with assms sorted show ?thesis by (simp add: routeToFastest_def)
  next
    case Balanced
    with assms sorted show ?thesis by (simp add: routeBalanced_def)
  next
    case PrivacyFirst
    with assms have "routePrivacyFirst st = Some n" by simp
    then show ?thesis
      using sorted first_Some_mem
      by (fastforce simp: routePrivacyFirst_def routeToCheapest_def Let_def split: if_splits)
  next
    case Reliability
    with assms sorted show ?thesis by (simp add: routeReliability_def)
  next
    case (Other x)
    with assms show ?thesis by simp
  qed
qed

subsection \<open>What \<^verbatim>\<open>selectProvider\<close> and \<^verbatim>\<open>gpt_route\<close> return\<close>




lemma makeRequest_not_invalid: "fst (makeRequest st lat p ms) \<noteq> Inl InvalidRequest"
  by (auto simp: makeRequest_def Let_def dest: gpt_estimateTokens_error split: sum.splits)

lemma gpt_route_not_invalid: "fst (gpt_route st d lat request) \<noteq> Inl InvalidRequest"
  by (auto simp: gpt_route_def Let_def makeRequest_not_invalid
        split: option.splits messages_value.splits)

subsection \<open>The patterns on strings without content\<close>

lemma patterns_empty: "list_ex (\<lambda>p. test p []) patterns = False"
  by (simp add: patterns_def rx_defs)

lemma patterns_basic_empty: "list_ex (\<lambda>p. test p []) patterns_basic = False"
  by (simp add: patterns_basic_def rx_defs)

lemma gpt_patterns_empty: "list_ex (\<lambda>p. test p []) gpt_patterns = False"
  by (simp add: gpt_patterns_def rx_defs)

lemma gpt_patterns_undefined: "list_ex (\<lambda>p. test p ''undefined'') gpt_patterns = False"
  by (simp add: gpt_patterns_def rx_defs)

lemma gpt_patterns_null: "list_ex (\<lambda>p. test p ''null'') gpt_patterns = False"
  by (simp add: gpt_patterns_def rx_defs)

lemma containsSensitive_append:
  "containsSensitive (xs @ ys) = (containsSensitive xs \<or> containsSensitive ys)"
  by (simp add: containsSensitive_def)

lemma containsSensitive_basic_append:
  "containsSensitive_basic (xs @ ys) = (containsSensitive_basic xs \<or> containsSensitive_basic ys)"
  by (simp add: containsSensitive_basic_def)

lemma detectSensitive_append:
  "detectSensitive (xs @ ys) = (detectSensitive xs \<or> detectSensitive ys)"
  by (simp add: detectSensitive_def)

lemma containsSensitive_lacking: "lacks_content m \<Longrightarrow> containsSensitive (m # ys) = containsSensitive ys"
  using patterns_empty by (auto simp: containsSensitive_def lacks_content_def)

lemma containsSensitive_blank:
  "containsSensitive (m\<lparr>content := Str []\<rparr> # ys) = containsSensitive ys"
  using patterns_empty by (auto simp: containsSensitive_def)

lemma containsSensitive_basic_lacking:
  "lacks_content m \<Longrightarrow> containsSensitive_basic (m # ys) = containsSensitive_basic ys"
  using patterns_basic_empty by (auto simp: containsSensitive_basic_def lacks_content_def)

lemma containsSensitive_basic_blank:
  "containsSensitive_basic (m\<lparr>content := Str []\<rparr> # ys) = containsSensitive_basic ys"
  using patterns_basic_empty by (auto simp: containsSensitive_basic_def)

lemma detectSensitive_lacking:
  "lacks_content m \<Longrightarrow> detectSensitive (m # ys) = detectSensitive ys"
  using gpt_patterns_undefined gpt_patterns_null by (auto simp: detectSensitive_def lacks_content_def)

lemma detectSensitive_blank:
  "detectSensitive (m\<lparr>content := Str []\<rparr> # ys) = detectSensitive ys"
  using gpt_patterns_empty by (auto simp: detectSensitive_def)

subsection \<open>The password request\<close>



section \<open>The claims\<close>

subsection \<open>C1: sensitive requests and local providers\<close>

text \<open>
  C1. A request classified sensitive is to be answered by a provider with privacy \<^verbatim>\<open>local\<close>
  whenever one is healthy, whatever the strategy. The code does not keep to this in two
  places. In the multi-provider router a sensitive request is sent to
  \<^verbatim>\<open>routeToProvider('local', ...)\<close>, whose budget check moves it on to the cheapest healthy
  provider when the local model has a price and is over budget: the request
  \<^verbatim>\<open>password\<close> goes to \<^verbatim>\<open>groq\<close>, a cloud provider, although \<^verbatim>\<open>local\<close> is healthy. In the
  GPTRouter the fallback to a provider with \<^verbatim>\<open>privacy === 'local'\<close> searches the list left by
  the budget filter: with \<^verbatim>\<open>local\<close> down and the healthy local provider \<^verbatim>\<open>vault\<close> over budget,
  a sensitive request goes to \<^verbatim>\<open>groq\<close>.
\<close>

theorem sensitive_request_sent_to_cloud:
  "containsSensitive [user ''password'']
   \<and> ''local'' \<in> set (getHealthyProviders priced_local_router)
   \<and> privacy (entry priced_local_router ''local'') = Local
   \<and> fst (route priced_local_router 1 (request_of ''password''))
       = Inr \<lparr>r_provider = ''groq'', r_reason = ''budget_exceeded'', r_cost = 2 * 0.0001 / 1000,
              r_latency = 30\<rparr>
   \<and> privacy (entry priced_local_router ''groq'') = Cloud
   \<and> detectSensitive [user ''my api_key'']
   \<and> list_ex (\<lambda>p. name p = ''vault'' \<and> privacy' p = Some Local) (gpt_getHealthyProviders vault_router)
   \<and> fst (gpt_route vault_router jan31 100 (request_of ''my api_key''))
       = Inr \<lparr>r_provider = ''groq'', r_reason = ''cheapest'', r_cost = 3 * 0.0001 / 1000,
              r_latency = 100\<rparr>
   \<and> list_ex (\<lambda>p. name p = ''groq'' \<and> privacy' p = Some Cloud) (gpt_getHealthyProviders vault_router)"
proof -
  have a: "containsSensitive [user ''password'']"
    by (simp add: containsSensitive_def patterns_def user_def rx_defs)
  have b: "''local'' \<in> set (getHealthyProviders priced_local_router)"
    "privacy (entry priced_local_router ''local'') = Local"
    "privacy (entry priced_local_router ''groq'') = Cloud"
    by (simp_all add: priced_local_router_def edge_defs)
  have c: "fst (route priced_local_router 1 (request_of ''password''))
       = Inr \<lparr>r_provider = ''groq'', r_reason = ''budget_exceeded'', r_cost = 2 * 0.0001 / 1000,
              r_latency = 30\<rparr>"
    by (simp add: priced_local_router_def edge_defs a [unfolded user_def])
  have d: "detectSensitive [user ''my api_key'']"
    by (simp add: detectSensitive_def gpt_patterns_def user_def rx_defs)
  have e: "list_ex (\<lambda>p. name p = ''vault'' \<and> privacy' p = Some Local) (gpt_getHealthyProviders vault_router)"
    "list_ex (\<lambda>p. name p = ''groq'' \<and> privacy' p = Some Cloud) (gpt_getHealthyProviders vault_router)"
    by (simp_all add: vault_router_def gpt_defs)
  have f: "fst (gpt_route vault_router jan31 100 (request_of ''my api_key''))
       = Inr \<lparr>r_provider = ''groq'', r_reason = ''cheapest'', r_cost = 3 * 0.0001 / 1000,
              r_latency = 100\<rparr>"
    by (simp add: vault_router_def gpt_defs d [unfolded user_def])
  from a b c d e f show ?thesis by simp
qed

subsection \<open>C2: every healthy candidate over budget\<close>




subsection \<open>C3: requests without messages\<close>

text \<open>
  The guard of the two EdgeRouters rejects every value that is not an array, and nothing
  else.
\<close>

lemma invalid_request_iff_no_array:
  "(fst (route er now request) = Inl InvalidRequest) = (\<forall>ms. messages request \<noteq> Array ms)"
  "(route_basic b request = Inl InvalidRequest) = (\<forall>ms. messages request \<noteq> Array ms)"
  by (auto simp: route_def routeToProvider_not_invalid route_basic_def routeToLocal_def
        routeToCloudflare_def mockCloudflareResponse_def Let_def
        split: messages_value.splits option.splits)

text \<open>
  The claim fails for the empty list: the check \<^verbatim>\<open>!messages || !Array.isArray(messages)\<close>
  lets \<^verbatim>\<open>[]\<close> through, and the request is routed as one of no tokens.
\<close>

theorem empty_messages_counterexample:
  "fst (route (new_EdgeRouter (edge_config Cheapest) 0) 1 \<lparr>messages = Array []\<rparr>)
     = Inr \<lparr>r_provider = ''local'', r_reason = ''cheapest'', r_cost = 0, r_latency = 100\<rparr>"
  by (simp add: edge_defs containsSensitive_def)

text \<open>
  C3, amended. \<^verbatim>\<open>route\<close> of either EdgeRouter rejects a request whose \<^verbatim>\<open>messages\<close> field is
  missing with \<^verbatim>\<open>InvalidRequest\<close>, and the multi-provider router is left as it was; \<^verbatim>\<open>route\<close> of
  the GPTRouter answers such a request with a \<^verbatim>\<open>TypeError\<close>, and no request with
  \<^verbatim>\<open>InvalidRequest\<close>. A request with an empty list is not rejected as invalid. The basic
  router routes it to \<^verbatim>\<open>cloudflare\<close> (to \<^verbatim>\<open>local\<close> under \<^verbatim>\<open>preferLocal\<close>). The multi-provider
  router, whenever its strategy picks a provider, answers with a decision of cost 0: for the
  provider picked, with the strategy as reason, when that provider's spend is within the daily
  budget; otherwise for the provider picked, with the strategy as reason, or for a healthy
  provider that is strictly cheaper, with the reason \<^verbatim>\<open>budget_exceeded\<close>.
\<close>

theorem missing_rejected_empty_routed:
  "(messages request = Missing \<longrightarrow>
      route er now request = (Inl InvalidRequest, er)
      \<and> route_basic b request = Inl InvalidRequest
      \<and> fst (gpt_route st d lat request) = Inl TypeError)
   \<and> fst (gpt_route st d lat request) \<noteq> Inl InvalidRequest
   \<and> (messages request = Array [] \<longrightarrow>
        fst (route er now request) \<noteq> Inl InvalidRequest
        \<and> route_basic b request
          = (if preferLocal b then Inr \<lparr>b_provider = ''local'', b_reason = ''sensitive_content''\<rparr>
             else Inr \<lparr>b_provider = ''cloudflare'', b_reason = ''cost_optimized''\<rparr>))
   \<and> (messages request = Array [] \<and> strategies (strategy er) = Some f \<and> f er = Some n \<longrightarrow>
        (\<exists>dec. fst (route er now request) = Inr dec \<and> r_cost dec = 0
           \<and> (r_provider dec = n \<and> r_reason dec = strategy_name (strategy er)
                \<or> r_reason dec = ''budget_exceeded''
                  \<and> r_provider dec \<in> set (getHealthyProviders er)
                  \<and> cost (entry er (r_provider dec)) < cost (entry er n))
           \<and> (get_or_zero (spent er) n \<le> daily er \<longrightarrow>
                 r_provider dec = n \<and> r_reason dec = strategy_name (strategy er))))"
proof -
  have m: "messages request = Missing \<longrightarrow>
      route er now request = (Inl InvalidRequest, er)
      \<and> route_basic b request = Inl InvalidRequest
      \<and> fst (gpt_route st d lat request) = Inl TypeError"
    by (simp add: route_def route_basic_def gpt_route_def Let_def)
  have e: "messages request = Array [] \<longrightarrow>
        fst (route er now request) \<noteq> Inl InvalidRequest
        \<and> route_basic b request
          = (if preferLocal b then Inr \<lparr>b_provider = ''local'', b_reason = ''sensitive_content''\<rparr>
             else Inr \<lparr>b_provider = ''cloudflare'', b_reason = ''cost_optimized''\<rparr>)"
    by (auto simp: route_def routeToProvider_not_invalid route_basic_def routeToLocal_def
          routeToCloudflare_def mockCloudflareResponse_def containsSensitive_basic_def Let_def
          split: option.splits)
  have re: "messages request = Array [] \<and> strategies (strategy er) = Some f \<and> f er = Some n \<longrightarrow>
        (\<exists>dec. fst (route er now request) = Inr dec \<and> r_cost dec = 0
           \<and> (r_provider dec = n \<and> r_reason dec = strategy_name (strategy er)
                \<or> r_reason dec = ''budget_exceeded''
                  \<and> r_provider dec \<in> set (getHealthyProviders er)
                  \<and> cost (entry er (r_provider dec)) < cost (entry er n))
           \<and> (get_or_zero (spent er) n \<le> daily er \<longrightarrow>
                 r_provider dec = n \<and> r_reason dec = strategy_name (strategy er)))"
  proof
    assume a: "messages request = Array [] \<and> strategies (strategy er) = Some f \<and> f er = Some n"
    let ?why = "strategy_name (strategy er)"
    from a have known: "map_of (providers er) n \<noteq> None"
      using strategy_picks_healthy healthy_known by blast
    then obtain p where p: "map_of (providers er) n = Some p" by auto
    from a have r: "route er now request = routeToProvider er now n request ?why"
      by (simp add: route_def containsSensitive_def)
    from a have ms: "messages request = Array []" by simp
    from routeToProvider_result [OF known ms, of now ?why]
    obtain dec where dec: "fst (routeToProvider er now n request ?why) = Inr dec"
      "r_cost dec = real (estimateTokens []) * cost (entry er (r_provider dec)) / 1000"
      "r_provider dec = n \<and> r_reason dec = ?why
         \<or> r_reason dec = ''budget_exceeded'' \<and> r_provider dec \<in> set (cheaper er n)" by blast
    from dec(2) have c0: "r_cost dec = 0" by (simp add: estimateTokens_Nil)
    from dec(3) have alt: "r_provider dec = n \<and> r_reason dec = ?why
         \<or> r_reason dec = ''budget_exceeded''
           \<and> r_provider dec \<in> set (getHealthyProviders er)
           \<and> cost (entry er (r_provider dec)) < cost (entry er n)"
      by (auto simp: cheaper_def)
    have within: "get_or_zero (spent er) n \<le> daily er \<longrightarrow>
                 r_provider dec = n \<and> r_reason dec = ?why"
    proof
      assume "get_or_zero (spent er) n \<le> daily er"
      then have "get_or_zero (spent er) n + real (estimateTokens []) * cost p / 1000 \<le> daily er"
        by (simp add: estimateTokens_Nil)
      from routeToProvider_within_budget [OF p ms this, of now ?why] dec(1)
      show "r_provider dec = n \<and> r_reason dec = ?why" by auto
    qed
    from r dec(1) c0 alt within
    show "\<exists>dec. fst (route er now request) = Inr dec \<and> r_cost dec = 0
           \<and> (r_provider dec = n \<and> r_reason dec = ?why
                \<or> r_reason dec = ''budget_exceeded''
                  \<and> r_provider dec \<in> set (getHealthyProviders er)
                  \<and> cost (entry er (r_provider dec)) < cost (entry er n))
           \<and> (get_or_zero (spent er) n \<le> daily er \<longrightarrow>
                 r_provider dec = n \<and> r_reason dec = ?why)"
      by auto
  qed
  from m e re gpt_route_not_invalid show ?thesis by blast
qed

theorem missing_rejected_empty_routed_witness:
  "route priced_local_router 1 \<lparr>messages = Missing\<rparr> = (Inl InvalidRequest, priced_local_router)
   \<and> route_basic \<lparr>preferLocal = False\<rparr> \<lparr>messages = Missing\<rparr> = Inl InvalidRequest
   \<and> fst (gpt_route january_router feb1 100 \<lparr>messages = Missing\<rparr>) = Inl TypeError
   \<and> route_basic \<lparr>preferLocal = False\<rparr> \<lparr>messages = Array []\<rparr>
       = Inr \<lparr>b_provider = ''cloudflare'', b_reason = ''cost_optimized''\<rparr>
   \<and> fst (route priced_local_router 1 \<lparr>messages = Array []\<rparr>) \<noteq> Inl InvalidRequest
   \<and> strategies (strategy priced_local_router) = Some routeToCheapest
   \<and> routeToCheapest priced_local_router = Some ''groq''
   \<and> (\<exists>dec. fst (route priced_local_router 1 \<lparr>messages = Array []\<rparr>) = Inr dec \<and> r_cost dec = 0
          \<and> r_provider dec = ''groq'' \<and> r_reason dec = ''cheapest'')"
proof -
  have s: "strategies (strategy priced_local_router) = Some routeToCheapest"
    "routeToCheapest priced_local_router = Some ''groq''"
    "get_or_zero (spent priced_local_router) ''groq'' \<le> daily priced_local_router"
    "strategy_name (strategy priced_local_router) = ''cheapest''"
    by (simp_all add: priced_local_router_def edge_defs)
  from missing_rejected_empty_routed [of "\<lparr>messages = Missing\<rparr>" priced_local_router 1
      "\<lparr>preferLocal = False\<rparr>" january_router feb1 100 routeToCheapest "''groq''"]
    missing_rejected_empty_routed [of "\<lparr>messages = Array []\<rparr>" priced_local_router 1
      "\<lparr>preferLocal = False\<rparr>" january_router feb1 100 routeToCheapest "''groq''"] s
  show ?thesis by auto
qed

subsection \<open>C4: the health check\<close>

text \<open>
  One probe of a registered provider. A failed probe adds one to the count and marks the
  provider unhealthy when the count before the probe had reached the threshold; a
  successful probe resets the count and marks the provider healthy.
\<close>

lemma failed_probe:
  assumes "map_of (providers st) pname = Some e"
  shows "\<exists>st'. checkProviderHealth st now pname False = Inr st'
           \<and> get_or_zero (failures st') pname = get_or_zero (failures st) pname + 1
           \<and> status (entry st' pname)
               = (if failureThreshold st \<le> get_or_zero (failures st) pname then Unhealthy else status e)"
  using assms
  by (auto simp: checkProviderHealth_def setStatus_def Let_def get_or_zero_def entry_def
        AList.update_conv')

lemma successful_probe:
  assumes "map_of (providers st) pname = Some e"
  shows "\<exists>st'. checkProviderHealth st now pname True = Inr st'
           \<and> get_or_zero (failures st') pname = 0
           \<and> status (entry st' pname) = Healthy"
  using assms
  by (auto simp: checkProviderHealth_def setStatus_def Let_def get_or_zero_def entry_def
        AList.update_conv')

text \<open>
  C4. A provider is to become unhealthy when its count of consecutive failed probes reaches
  the threshold of 3, and one successful probe is to reset the count and restore it. The
  code misses the first half by one probe: \<^verbatim>\<open>checkProviderHealth\<close> compares the count read before
  the increment with the threshold, so a provider is marked unhealthy at its fourth
  consecutive failed probe: after three it is still healthy, with a count of 3. One successful
  probe then resets the count and restores the provider, as the claim says.
\<close>

theorem unhealthy_after_four_failures:
  "(case checks (new_EdgeRouter (edge_config Balanced) 0) 1 ''openai'' [False, False, False] of
      Inl e \<Rightarrow> None
    | Inr st \<Rightarrow> Some (status (entry st ''openai''), map_of (failures st) ''openai''))
     = Some (Healthy, Some 3)
   \<and> (case checks (new_EdgeRouter (edge_config Balanced) 0) 1 ''openai'' [False, False, False, False] of
      Inl e \<Rightarrow> None
    | Inr st \<Rightarrow> Some (status (entry st ''openai''), map_of (failures st) ''openai''))
     = Some (Unhealthy, Some 4)
   \<and> (case checks (new_EdgeRouter (edge_config Balanced) 0) 1 ''openai'' [False, False, False, False, True] of
      Inl e \<Rightarrow> None
    | Inr st \<Rightarrow> Some (status (entry st ''openai''), map_of (failures st) ''openai''))
     = Some (Healthy, Some 0)"
  by (simp add: edge_defs)

subsection \<open>C5: the cheapest strategy\<close>

text \<open>
  C5. With the strategy \<^verbatim>\<open>cheapest\<close> and a request that is not sensitive, the provider selected
  from a non-empty candidate list costs no more than any candidate of the list: in
  \<^verbatim>\<open>selectProvider\<close> of the GPTRouter, and in \<^verbatim>\<open>routeToCheapest\<close> of the multi-provider router
  over its healthy providers.
\<close>

theorem cheapest_is_least_cost:
  assumes "gpt_strategy st = Cheapest" and "ps \<noteq> []" and "getHealthyProviders er \<noteq> []"
  shows "(\<exists>p. selectProvider st ps False = Some p \<and> p \<in> set ps \<and> (\<forall>q\<in>set ps. cost' p \<le> cost' q))
       \<and> (\<exists>n. routeToCheapest er = Some n \<and> n \<in> set (getHealthyProviders er)
              \<and> (\<forall>q\<in>set (getHealthyProviders er). cost (entry er n) \<le> cost (entry er q)))"
proof
  from first_js_sort_least [OF assms(2), of cost'] assms(1)
  show "\<exists>p. selectProvider st ps False = Some p \<and> p \<in> set ps \<and> (\<forall>q\<in>set ps. cost' p \<le> cost' q)"
    by (simp add: selectProvider_def)
next
  from first_js_sort_least [OF assms(3), of "\<lambda>n. cost (entry er n)"]
  show "\<exists>n. routeToCheapest er = Some n \<and> n \<in> set (getHealthyProviders er)
              \<and> (\<forall>q\<in>set (getHealthyProviders er). cost (entry er n) \<le> cost (entry er q))"
    by (simp add: routeToCheapest_def)
qed

theorem cheapest_is_least_cost_witness:
  "gpt_strategy (new_GPTRouter (gpt_config Cheapest) jan31) = Cheapest
   \<and> gpt_getHealthyProviders (new_GPTRouter (gpt_config Cheapest) jan31) \<noteq> []
   \<and> getHealthyProviders (new_EdgeRouter (edge_config Cheapest) 0) \<noteq> []
   \<and> (\<exists>p. selectProvider (new_GPTRouter (gpt_config Cheapest) jan31)
              (gpt_getHealthyProviders (new_GPTRouter (gpt_config Cheapest) jan31)) False = Some p
           \<and> name p = ''local'' \<and> cost' p = 0)
   \<and> routeToCheapest (new_EdgeRouter (edge_config Cheapest) 0) = Some ''local''"
proof -
  let ?st = "new_GPTRouter (gpt_config Cheapest) jan31"
  let ?er = "new_EdgeRouter (edge_config Cheapest) 0"
  have h1: "gpt_strategy ?st = Cheapest" by (simp add: gpt_defs)
  have h2: "gpt_getHealthyProviders ?st \<noteq> []" by (simp add: gpt_defs)
  have h3: "getHealthyProviders ?er \<noteq> []" by (simp add: edge_defs)
  have s: "\<exists>p. selectProvider ?st (gpt_getHealthyProviders ?st) False = Some p \<and> name p = ''local'' \<and> cost' p = 0"
    by (simp add: gpt_defs)
  have r: "routeToCheapest ?er = Some ''local''" by (simp add: edge_defs)
  from cheapest_is_least_cost [OF h1 h2 h3] h1 h2 h3 s r show ?thesis by blast
qed

subsection \<open>C6: the password request\<close>




subsection \<open>C7: estimated cost and the budget filter\<close>




subsection \<open>C8: budget periods\<close>

text \<open>
  Whenever the day of the month differs, \<^verbatim>\<open>checkBudgetReset\<close> resets the daily total and
  keeps the monthly one.
\<close>

lemma monthly_kept_when_day_differs:
  "getDate now \<noteq> getDate (lastResetDate st) \<Longrightarrow> monthlySpent (checkBudgetReset st now) = monthlySpent st"
  by (simp add: checkBudgetReset_def)

lemma daily_reset_when_day_differs:
  "getDate now \<noteq> getDate (lastResetDate st) \<Longrightarrow> dailySpent (checkBudgetReset st now) = 0"
  by (simp add: checkBudgetReset_def)

text \<open>
  C8. A \<^verbatim>\<open>route\<close> call on a new day is to reset the daily total, and one in a new month
  the monthly total, before the request is processed. The code misses the month:
  \<^verbatim>\<open>checkBudgetReset\<close> stores the new date before it
  compares the months, so whenever the day of the month differs the months compared are
  equal and the monthly total is kept: from 31 January to 1 February the daily total is
  reset and the monthly total of 5 stays.
\<close>

theorem monthly_spend_survives_month_change:
  "getMonth feb1 \<noteq> getMonth (lastResetDate january_router)
   \<and> monthlySpent january_router = 5
   \<and> monthlySpent (checkBudgetReset january_router feb1) = 5
   \<and> dailySpent (checkBudgetReset january_router feb1) = 0"
  by (simp add: january_router_def gpt_defs jan31_def feb1_def)

subsection \<open>C9: the analytics summary\<close>

text \<open>
  The claim fails on the multi-provider router: its summary holds \<^verbatim>\<open>uptime\<close>, the clock
  reading minus the start time, so two calls at different clock readings differ.
\<close>

theorem summary_twice_counterexample:
  "fst (getAnalytics (new_EdgeRouter (edge_config Balanced) 0) 1)
   \<noteq> fst (getAnalytics (snd (getAnalytics (new_EdgeRouter (edge_config Balanced) 0) 1)) 2)"
  by (simp add: getAnalytics_def new_EdgeRouter_def)

text \<open>
  C9, amended. Two calls of the summary in succession: the GPTRouter returns the same value
  twice and is left as it was; the multi-provider router is left as it was and returns the
  same value but for \<^verbatim>\<open>uptime\<close>, so the two values are identical exactly when the clock
  readings are.
\<close>

theorem summary_twice:
  assumes "gpt_getAnalytics st = (b1, st1)" and "gpt_getAnalytics st1 = (b2, st2)"
    and "getAnalytics er t1 = (a1, er1)" and "getAnalytics er1 t2 = (a2, er2)"
  shows "b2 = b1 \<and> st2 = st \<and> er2 = er \<and> a2 = a1\<lparr>s_uptime := t2 - startTime er\<rparr>
       \<and> (a2 = a1) = (t2 = t1)"
proof -
  from assms(1,2) have g: "b2 = b1 \<and> st2 = st"
    by (auto simp: gpt_getAnalytics_def Let_def)
  from assms(3,4) have e: "er2 = er \<and> a2 = a1\<lparr>s_uptime := t2 - startTime er\<rparr>"
    by (auto simp: getAnalytics_def)
  from assms(3,4) have u: "s_uptime a1 = t1 - startTime er" "s_uptime a2 = t2 - startTime er"
    by (auto simp: getAnalytics_def)
  have "(a2 = a1) = (t2 = t1)"
  proof
    assume "a2 = a1"
    with u show "t2 = t1" by simp
  next
    assume "t2 = t1"
    with e u show "a2 = a1" by simp
  qed
  with g e show ?thesis by simp
qed

theorem summary_twice_witness:
  "fst (gpt_getAnalytics (snd (gpt_getAnalytics january_router))) = fst (gpt_getAnalytics january_router)
   \<and> snd (gpt_getAnalytics (snd (gpt_getAnalytics january_router))) = january_router
   \<and> fst (getAnalytics (snd (getAnalytics priced_local_router 1)) 2)
       = (fst (getAnalytics priced_local_router 1))\<lparr>s_uptime := 2 - startTime priced_local_router\<rparr>"
  using summary_twice [of january_router "fst (gpt_getAnalytics january_router)"
      "snd (gpt_getAnalytics january_router)"
      "fst (gpt_getAnalytics (snd (gpt_getAnalytics january_router)))"
      "snd (gpt_getAnalytics (snd (gpt_getAnalytics january_router)))"
      priced_local_router 1 "fst (getAnalytics priced_local_router 1)"
      "snd (getAnalytics priced_local_router 1)" 2
      "fst (getAnalytics (snd (getAnalytics priced_local_router 1)) 2)"
      "snd (getAnalytics (snd (getAnalytics priced_local_router 1)) 2)"]
  by simp

subsection \<open>C10: messages without content\<close>

text \<open>
  C10. The detectors are total functions of the message list. Each answers false on the empty
  list. A message whose content is missing or null never makes a request sensitive: in
  \<^verbatim>\<open>containsSensitive\<close> (both EdgeRouters) it counts as the empty string, which no pattern
  matches, so the answer is that of the list without the message; \<^verbatim>\<open>detectSensitive\<close>
  tests the string \<^verbatim>\<open>undefined\<close> or \<^verbatim>\<open>null\<close> instead, which no pattern matches either, and
  answers as for the empty string and as for the list without the message too.
\<close>

theorem detector_missing_content:
  assumes "lacks_content m"
  shows "\<not> containsSensitive [] \<and> \<not> containsSensitive_basic [] \<and> \<not> detectSensitive []
       \<and> containsSensitive (xs @ m # ys) = containsSensitive (xs @ m\<lparr>content := Str []\<rparr> # ys)
       \<and> containsSensitive (xs @ m # ys) = containsSensitive (xs @ ys)
       \<and> containsSensitive_basic (xs @ m # ys) = containsSensitive_basic (xs @ m\<lparr>content := Str []\<rparr> # ys)
       \<and> containsSensitive_basic (xs @ m # ys) = containsSensitive_basic (xs @ ys)
       \<and> detectSensitive (xs @ m # ys) = detectSensitive (xs @ m\<lparr>content := Str []\<rparr> # ys)
       \<and> detectSensitive (xs @ m # ys) = detectSensitive (xs @ ys)"
proof -
  have e: "\<not> containsSensitive []" "\<not> containsSensitive_basic []" "\<not> detectSensitive []"
    by (simp_all add: containsSensitive_def containsSensitive_basic_def detectSensitive_def)
  have a: "containsSensitive (xs @ m # ys) = containsSensitive (xs @ ys)"
    by (simp add: containsSensitive_append containsSensitive_lacking [OF assms])
  have a': "containsSensitive (xs @ m\<lparr>content := Str []\<rparr> # ys) = containsSensitive (xs @ ys)"
    by (simp add: containsSensitive_append containsSensitive_blank)
  have b: "containsSensitive_basic (xs @ m # ys) = containsSensitive_basic (xs @ ys)"
    by (simp add: containsSensitive_basic_append containsSensitive_basic_lacking [OF assms])
  have b': "containsSensitive_basic (xs @ m\<lparr>content := Str []\<rparr> # ys) = containsSensitive_basic (xs @ ys)"
    by (simp add: containsSensitive_basic_append containsSensitive_basic_blank)
  have c: "detectSensitive (xs @ m # ys) = detectSensitive (xs @ ys)"
    by (simp add: detectSensitive_append detectSensitive_lacking [OF assms])
  have c': "detectSensitive (xs @ m\<lparr>content := Str []\<rparr> # ys) = detectSensitive (xs @ ys)"
    by (simp add: detectSensitive_append detectSensitive_blank)
  from e a a' b b' c c' show ?thesis by simp
qed

theorem detector_missing_content_witness:
  "lacks_content \<lparr>role = ''user'', content = Undefined\<rparr>
   \<and> containsSensitive ([user ''weather today''] @ \<lparr>role = ''user'', content = Undefined\<rparr> # [])
       = containsSensitive ([user ''weather today''] @ [])
   \<and> \<not> containsSensitive ([user ''weather today''] @ [])"
proof -
  have h: "lacks_content \<lparr>role = ''user'', content = Undefined\<rparr>"
    by (simp add: lacks_content_def)
  have n: "\<not> containsSensitive ([user ''weather today''] @ [])"
    by (simp add: containsSensitive_def patterns_def user_def rx_defs)
  from detector_missing_content [OF h, of "[user ''weather today'']" "[]"] h n
  show ?thesis by blast
qed

end
